theory Spec2Isabelle
  imports Complex_Main "HOL-Library.AList"
begin

section \<open>Syntax tree (ast_nodes.py)\<close>

text \<open>
  The RIFT interpreter walks a tree of dataclass nodes. The embedding keeps the node
  classes the evaluator dispatches on, with the fields the evaluator reads. Source
  positions (line, column) are only copied into error objects and are left out; an
  optional child (\<open>Optional[Node]\<close>) is an \<open>option\<close>.

  A Python float is an IEEE double: a finite value (carried as the rational it
  denotes), an infinity or a NaN. The number literal \<open>1e999\<close> is read by the parser
  with \<open>float(text)\<close> and is the literal \<open>LFloat PosInf\<close>.
\<close>

datatype pyfloat = Finite rat | PosInf | NegInf | NaN

datatype lit = LNone | LBool bool | LInt int | LFloat pyfloat | LStr string

datatype (plugins only: code size) node =
    Literal lit
  | Identifier string
  | BinaryOp string node node
  | UnaryOp string node
  | LogicalOp string node node
  | Assignment node node string
  | Call node "node list"
  | MemberAccess node string bool
  | ListLiteral "node list"
  | MapLiteral "(node option \<times> node) list"
  | Range node node bool
  | Pipeline node "node list" bool
  | Lambda "param list" node
  | Yield "node option"
  | Me
  | Block "node list"
  | ExpressionStatement node
  | VariableDeclaration string string "string option" "node option"
  | FunctionDeclaration string "param list" node
  | IfStatement node node "node option"
  | WhileStatement node node
  | CheckStatement node "checkcase list"
  | TryStatement node "string option" "node option" "node option"
  | FailStatement node
  | GiveStatement "node option"
  | StopStatement
  | NextStatement
  | ClassDeclaration string "string option" "node list"
  | MethodDeclaration string "param list" node bool
  | PropertyDeclaration string "node option" bool
  | Constructor "param list" node
  | WildcardPattern
  | BindingPattern string
  | RangePattern node node
and param = Parameter (param_name: string) (param_default: "node option") (param_rest: bool)
and checkcase = CheckCase (case_pattern: node) (case_guard: "node option") (case_body: node)

section \<open>Runtime values (types.py, interpreter.py)\<close>

text \<open>
  Runtime values are Python objects. Scalars, sequences and maps are carried by value;
  an \<open>Environment\<close> and a \<open>RiftInstance\<close> are mutable objects that closures and
  bound methods share, so they live in a store (a list; an object's address is its
  index, and a reference always denotes an object already allocated). An
  \<open>Environment\<close> is denoted by the chain of frame addresses from itself to the global
  scope (its \<open>parent\<close> link never changes after construction).
\<close>

datatype (plugins only: code size) val =
    VNone
  | VBool bool
  | VInt int
  | VFloat pyfloat
  | VStr string
  | VList "val list"
  | VMap "(val \<times> val) list"
  | VRange int int
  | RiftFunction (fn_name: string) (fn_params: "param list") (fn_body: node)
      (fn_closure: "nat list") (fn_is_method: bool)
  | RiftLambda "param list" node "nat list"
  | RiftBoundMethod nat val
  | RiftClass (cls_name: string) (cls_methods: "(string \<times> val) list")
      (cls_properties: "(string \<times> val) list") (cls_parent: "val option")
      (cls_static_methods: "(string \<times> val) list")
      (cls_static_properties: "(string \<times> val) list")
      (cls_constructor: "(param list \<times> node) option")
  | RiftInstance nat
  | Builtin string
  | PyMethod val string
  | HostAccessor val string


text \<open>
  \<open>Builtin n\<close> is the host function \<open>self._builtin_n\<close> the interpreter registers under
  the name \<open>n\<close>; \<open>PyMethod v m\<close> is the bound method \<open>v.m\<close> of a host object, as
  \<open>getattr\<close> returns it; \<open>HostAccessor v n\<close> is the closure the tables of
  \<open>_get_string_method\<close> and \<open>_get_list_method\<close> hold under the name \<open>n\<close>.

  What the embedding leaves out: in-place mutation of sequences and maps (they are
  carried by value, so two names never share one), the recursion limit of the host,
  modules, generators' drivers and asynchronous tasks. Two values with the same
  representation are taken to be the same object where the host tests identity.
\<close>

section \<open>Failures and signals (errors.py)\<close>

text \<open>
  \<open>RiftError\<close> subclasses carry a message; the control-flow signals are plain
  \<open>Exception\<close> subclasses. Inside interpreter.py the names \<open>TypeError\<close>,
  \<open>NameError\<close> and \<open>RuntimeError\<close> are the RIFT classes, so an exception raised by
  the host itself (for instance by \<open>1 - "a"\<close>) is a different object: \<open>PyException\<close>.
\<close>

datatype err_class = RuntimeError | TypeError | NameError | AssignmentError
  | ArgumentError | DivisionByZeroError

datatype py_exc = PyTypeError | PyZeroDivisionError | PyAttributeError | PyOverflowError
  | PyValueError | PyIndexError | PyKeyError

datatype exn = RiftError err_class string | PyException py_exc
  | BreakSignal | ContinueSignal | ReturnSignal val | YieldSignal val

text \<open>
  An evaluation returns a value, raises, runs out of fuel (the recursion depth given
  to the evaluator), or leaves the modelled fragment of the host (\<open>Unmodelled\<close>: a host
  primitive on operands whose result the embedding does not compute, such as the text
  form of a float).
\<close>

datatype 'a res = Ok 'a | Raise exn | OutOfFuel | Unmodelled

section \<open>The evaluator's state\<close>

record environment =
  scope_name :: string
  variables :: "(string \<times> val) list"
  immutables :: "string set"
  constants :: "string set"
  types :: "(string \<times> string) list"

record rift_instance =
  inst_class :: val
  properties :: "(string \<times> val) list"

record interp =
  frames :: "environment list"
  instances :: "rift_instance list"
  current_env :: "nat list"
  global_env :: "nat list"

type_synonym 'a M = "interp \<Rightarrow> 'a res \<times> interp"

section \<open>Host arithmetic (Python's numbers)\<close>

definition pow2 :: "int \<Rightarrow> rat" where
  "pow2 e = (if 0 \<le> e then 2 ^ nat e else 1 / 2 ^ nat (- e))"

text \<open>The number of binary digits of a positive integer.\<close>

function bitlen :: "int \<Rightarrow> nat" where
  "bitlen i = (if i \<le> 0 then 0 else Suc (bitlen (i div 2)))"
  by pat_completeness auto
termination
  by (relation "measure nat") auto

declare bitlen.simps [simp del]

text \<open>\<open>ilog2 a\<close> is the exponent \<open>e\<close> with \<open>2^e \<le> a < 2^(e+1)\<close>, for a positive \<open>a\<close>.\<close>

definition ilog2 :: "rat \<Rightarrow> int" where
  "ilog2 a = (case quotient_of a of (p, q) \<Rightarrow>
     (let e = int (bitlen p) - int (bitlen q)
      in if pow2 e \<le> a then e else e - 1))"

definition round_half_even :: "rat \<Rightarrow> int" where
  "round_half_even x = (let f = \<lfloor>x\<rfloor>; d = x - of_int f
     in if d < 1 / 2 then f else if 1 / 2 < d then f + 1 else if even f then f else f + 1)"

text \<open>Rounding of an exact result to the nearest double (53 bits, ties to even,
  gradual underflow, overflow to an infinity).\<close>

definition fl_round :: "rat \<Rightarrow> pyfloat" where
  "fl_round x = (if x = 0 then Finite 0 else
     (let a = \<bar>x\<bar>; e = max (ilog2 a) (- 1022); u = pow2 (e - 52);
          r = of_int (round_half_even (a / u)) * u
      in if pow2 1024 \<le> r then (if 0 < x then PosInf else NegInf)
         else Finite (if 0 < x then r else - r)))"

fun fl_neg :: "pyfloat \<Rightarrow> pyfloat" where
  "fl_neg (Finite a) = Finite (- a)"
| "fl_neg PosInf = NegInf"
| "fl_neg NegInf = PosInf"
| "fl_neg NaN = NaN"

fun fl_add :: "pyfloat \<Rightarrow> pyfloat \<Rightarrow> pyfloat" where
  "fl_add NaN y = NaN"
| "fl_add x NaN = NaN"
| "fl_add (Finite a) (Finite b) = fl_round (a + b)"
| "fl_add PosInf NegInf = NaN"
| "fl_add NegInf PosInf = NaN"
| "fl_add PosInf y = PosInf"
| "fl_add NegInf y = NegInf"
| "fl_add (Finite a) y = y"

definition fl_sub :: "pyfloat \<Rightarrow> pyfloat \<Rightarrow> pyfloat" where
  "fl_sub x y = fl_add x (fl_neg y)"

text \<open>The sign of a float that is neither zero nor NaN.\<close>

fun fl_positive :: "pyfloat \<Rightarrow> bool" where
  "fl_positive (Finite a) = (0 < a)"
| "fl_positive PosInf = True"
| "fl_positive NegInf = False"
| "fl_positive NaN = False"

definition fl_inf :: "bool \<Rightarrow> pyfloat" where
  "fl_inf positive = (if positive then PosInf else NegInf)"

fun fl_mul :: "pyfloat \<Rightarrow> pyfloat \<Rightarrow> pyfloat" where
  "fl_mul NaN y = NaN"
| "fl_mul x NaN = NaN"
| "fl_mul (Finite a) (Finite b) = fl_round (a * b)"
| "fl_mul x y = (if x = Finite 0 \<or> y = Finite 0 then NaN
                 else fl_inf (fl_positive x = fl_positive y))"

text \<open>Division of floats by a divisor that is not zero.\<close>

fun fl_div :: "pyfloat \<Rightarrow> pyfloat \<Rightarrow> pyfloat" where
  "fl_div NaN y = NaN"
| "fl_div x NaN = NaN"
| "fl_div (Finite a) (Finite b) = fl_round (a / b)"
| "fl_div (Finite a) y = Finite 0"
| "fl_div x (Finite b) = fl_inf (fl_positive x = (0 < b))"
| "fl_div x y = NaN"

fun fl_eq :: "pyfloat \<Rightarrow> pyfloat \<Rightarrow> bool" where
  "fl_eq NaN y = False"
| "fl_eq x NaN = False"
| "fl_eq x y = (x = y)"

fun fl_less :: "pyfloat \<Rightarrow> pyfloat \<Rightarrow> bool" where
  "fl_less NaN y = False"
| "fl_less x NaN = False"
| "fl_less (Finite a) (Finite b) = (a < b)"
| "fl_less x PosInf = (x \<noteq> PosInf)"
| "fl_less NegInf y = (y \<noteq> NegInf)"
| "fl_less x y = False"

definition fl_le :: "pyfloat \<Rightarrow> pyfloat \<Rightarrow> bool" where
  "fl_le x y = (fl_less x y \<or> fl_eq x y)"

text \<open>Python's numbers: \<open>bool\<close> is a subclass of \<open>int\<close>.\<close>

datatype num = NInt int | NFloat pyfloat

fun as_num :: "val \<Rightarrow> num option" where
  "as_num (VBool b) = Some (NInt (if b then 1 else 0))"
| "as_num (VInt i) = Some (NInt i)"
| "as_num (VFloat f) = Some (NFloat f)"
| "as_num v = None"

text \<open>\<open>isinstance(v, int)\<close>\<close>

fun as_int :: "val \<Rightarrow> int option" where
  "as_int (VBool b) = Some (if b then 1 else 0)"
| "as_int (VInt i) = Some i"
| "as_int v = None"

text \<open>The exact value of a number (comparisons do not round).\<close>

fun exact :: "num \<Rightarrow> pyfloat" where
  "exact (NInt i) = Finite (of_int i)"
| "exact (NFloat f) = f"

text \<open>\<open>float(i)\<close>: conversion rounds, and fails when the integer is too large.\<close>

fun to_float :: "num \<Rightarrow> pyfloat res" where
  "to_float (NFloat f) = Ok f"
| "to_float (NInt i) = (case fl_round (of_int i) of
       Finite r \<Rightarrow> Ok (Finite r)
     | _ \<Rightarrow> Raise (PyException PyOverflowError))"

definition num_arith ::
  "(int \<Rightarrow> int \<Rightarrow> int) \<Rightarrow> (pyfloat \<Rightarrow> pyfloat \<Rightarrow> pyfloat) \<Rightarrow> num \<Rightarrow> num \<Rightarrow> val res" where
  "num_arith fi ff a b = (case (a, b) of
       (NInt i, NInt j) \<Rightarrow> Ok (VInt (fi i j))
     | _ \<Rightarrow> (case (to_float a, to_float b) of
          (Ok x, Ok y) \<Rightarrow> Ok (VFloat (ff x y))
        | _ \<Rightarrow> Raise (PyException PyOverflowError)))"

text \<open>\<open>a / b\<close> on numbers: true division, correctly rounded.\<close>

definition num_truediv :: "num \<Rightarrow> num \<Rightarrow> val res" where
  "num_truediv a b = (case (a, b) of
       (NInt i, NInt j) \<Rightarrow>
         if j = 0 then Raise (PyException PyZeroDivisionError)
         else (case fl_round (of_int i / of_int j) of
                 Finite r \<Rightarrow> Ok (VFloat (Finite r))
               | _ \<Rightarrow> Raise (PyException PyOverflowError))
     | _ \<Rightarrow> (case (to_float a, to_float b) of
          (Ok x, Ok y) \<Rightarrow>
            if y = Finite 0 then Raise (PyException PyZeroDivisionError)
            else Ok (VFloat (fl_div x y))
        | _ \<Rightarrow> Raise (PyException PyOverflowError)))"

section \<open>Host operations on values (Python's operators)\<close>

text \<open>\<open>Interpreter._is_truthy\<close>\<close>

fun is_truthy :: "val \<Rightarrow> bool" where
  "is_truthy VNone = False"
| "is_truthy (VBool b) = b"
| "is_truthy (VInt i) = (i \<noteq> 0)"
| "is_truthy (VFloat f) = (\<not> fl_eq f (Finite 0))"
| "is_truthy (VStr s) = (0 < length s)"
| "is_truthy (VList xs) = (0 < length xs)"
| "is_truthy (VMap m) = (0 < length m)"
| "is_truthy v = True"

text \<open>
  \<open>==\<close> on values that are not sequences or maps: numbers compare by value across
  \<open>bool\<close>, \<open>int\<close> and \<open>float\<close> (a NaN equals nothing, itself included), text and
  ranges by content, every other object by identity.
\<close>

definition scalar_eq :: "val \<Rightarrow> val \<Rightarrow> bool" where
  "scalar_eq a b = (case (as_num a, as_num b) of
       (Some x, Some y) \<Rightarrow> fl_eq (exact x) (exact y)
     | (Some x, None) \<Rightarrow> False
     | (None, Some y) \<Rightarrow> False
     | (None, None) \<Rightarrow>
         (case (a, b) of
            (VRange i j, VRange k l) \<Rightarrow> (j \<le> i \<and> l \<le> k) \<or> (i = k \<and> j = l)
          | _ \<Rightarrow> a = b))"

text \<open>The entry of a map under a key (keys are hashable, so they are scalars).\<close>

fun dict_get :: "(val \<times> val) list \<Rightarrow> val \<Rightarrow> val option" where
  "dict_get [] k = None"
| "dict_get ((k', v) # m) k = (if k' = k \<or> scalar_eq k' k then Some v else dict_get m k)"

fun dict_set :: "(val \<times> val) list \<Rightarrow> val \<Rightarrow> val \<Rightarrow> (val \<times> val) list" where
  "dict_set [] k v = [(k, v)]"
| "dict_set ((k', v') # m) k v =
     (if k' = k \<or> scalar_eq k' k then (k', v) # m else (k', v') # dict_set m k v)"

text \<open>
  \<open>left == right\<close>. Sequences compare element by element and maps entry by entry;
  the host compares two elements with an identity test first and \<open>==\<close> second.
\<close>

fun py_eq :: "val \<Rightarrow> val \<Rightarrow> bool"
  and py_eq_items :: "val list \<Rightarrow> val list \<Rightarrow> bool"
  and py_eq_entries :: "(val \<times> val) list \<Rightarrow> (val \<times> val) list \<Rightarrow> bool" where
  "py_eq a b = (case a of
       VList xs \<Rightarrow> (case b of VList ys \<Rightarrow> py_eq_items xs ys | _ \<Rightarrow> False)
     | VMap m \<Rightarrow> (case b of VMap m' \<Rightarrow> length m = length m' \<and> py_eq_entries m m'
                   | _ \<Rightarrow> False)
     | _ \<Rightarrow> scalar_eq a b)"
| "py_eq_items [] ys = (ys = [])"
| "py_eq_items (x # xs) ys = (case ys of
       [] \<Rightarrow> False
     | y # ys' \<Rightarrow> (x = y \<or> py_eq x y) \<and> py_eq_items xs ys')"
| "py_eq_entries [] m' = True"
| "py_eq_entries (kv # m) m' = (case dict_get m' (fst kv) of
       None \<Rightarrow> False
     | Some v' \<Rightarrow> (snd kv = v' \<or> py_eq (snd kv) v') \<and> py_eq_entries m m')"

declare py_eq.simps(1) [simp del]

text \<open>\<open>callable(v)\<close>: the Rift wrapper classes define no \<open>__call__\<close>.\<close>

fun py_callable :: "val \<Rightarrow> bool" where
  "py_callable (Builtin n) = True"
| "py_callable (PyMethod v m) = True"
| "py_callable (HostAccessor v n) = True"
| "py_callable v = False"

text \<open>types.py: \<open>get_type\<close>, \<open>type_name\<close>, \<open>check_type\<close>.\<close>

datatype rift_type = TEXT | NUM | BOOL | LIST | MAP | NONE | CONDUIT | CLASS | INSTANCE
  | ANY | GENERATOR

definition TYPE_NAMES :: "(string \<times> rift_type) list" where
  "TYPE_NAMES = [(''text'', TEXT), (''num'', NUM), (''bool'', BOOL), (''list'', LIST),
     (''map'', MAP), (''none'', NONE), (''conduit'', CONDUIT), (''any'', ANY)]"

fun get_type :: "val \<Rightarrow> rift_type" where
  "get_type VNone = NONE"
| "get_type (VBool b) = BOOL"
| "get_type (VInt i) = NUM"
| "get_type (VFloat f) = NUM"
| "get_type (VStr s) = TEXT"
| "get_type (VList xs) = LIST"
| "get_type (VMap m) = MAP"
| "get_type (RiftInstance a) = INSTANCE"
| "get_type v = (if py_callable v then CONDUIT else ANY)"

text \<open>\<open>type_name\<close> reads an instance's \<open>__rift_class__\<close>, the name of its class.\<close>

definition type_name :: "rift_instance list \<Rightarrow> val \<Rightarrow> string" where
  "type_name insts v =
     (case find (\<lambda>(n, t). t = get_type v) TYPE_NAMES of
        Some (n, t) \<Rightarrow> n
      | None \<Rightarrow>
          (case v of
             RiftInstance a \<Rightarrow> ''instance of '' @ cls_name (inst_class (insts ! a))
           | _ \<Rightarrow> ''any''))"

definition check_type :: "val \<Rightarrow> string \<Rightarrow> bool" where
  "check_type v expected_type =
     (case map_of TYPE_NAMES expected_type of
        None \<Rightarrow> True
      | Some expected \<Rightarrow> expected = ANY \<or> get_type v = expected)"

text \<open>\<open>str(v)\<close>, where the embedding computes it.\<close>

fun digits :: "nat \<Rightarrow> string" where
  "digits n = (if n < 10 then [char_of (48 + n)]
               else digits (n div 10) @ [char_of (48 + n mod 10)])"

declare digits.simps [simp del]

fun py_str :: "val \<Rightarrow> string option" where
  "py_str VNone = Some ''None''"
| "py_str (VBool b) = Some (if b then ''True'' else ''False'')"
| "py_str (VInt i) = Some (if i < 0 then CHR ''-'' # digits (nat (- i)) else digits (nat i))"
| "py_str (VStr s) = Some s"
| "py_str v = None"

text \<open>The operators of \<open>_eval_BinaryOp\<close>, as the host defines them.\<close>

definition py_add :: "val \<Rightarrow> val \<Rightarrow> val res" where
  "py_add a b = (case (as_num a, as_num b) of
       (Some x, Some y) \<Rightarrow> num_arith (+) fl_add x y
     | _ \<Rightarrow> (case (a, b) of
          (VStr s, VStr t) \<Rightarrow> Ok (VStr (s @ t))
        | (VList xs, VList ys) \<Rightarrow> Ok (VList (xs @ ys))
        | _ \<Rightarrow> Raise (PyException PyTypeError)))"

definition py_sub :: "val \<Rightarrow> val \<Rightarrow> val res" where
  "py_sub a b = (case (as_num a, as_num b) of
       (Some x, Some y) \<Rightarrow> num_arith (-) fl_sub x y
     | _ \<Rightarrow> Raise (PyException PyTypeError))"

definition py_mul :: "val \<Rightarrow> val \<Rightarrow> val res" where
  "py_mul a b = (case (as_num a, as_num b) of
       (Some x, Some y) \<Rightarrow> num_arith (*) fl_mul x y
     | _ \<Rightarrow> (case (a, as_int b, as_int a, b) of
          (VStr s, Some n, _, _) \<Rightarrow> Ok (VStr (concat (replicate (nat n) s)))
        | (VList xs, Some n, _, _) \<Rightarrow> Ok (VList (concat (replicate (nat n) xs)))
        | (_, _, Some n, VStr s) \<Rightarrow> Ok (VStr (concat (replicate (nat n) s)))
        | (_, _, Some n, VList xs) \<Rightarrow> Ok (VList (concat (replicate (nat n) xs)))
        | _ \<Rightarrow> Raise (PyException PyTypeError)))"

definition py_truediv :: "val \<Rightarrow> val \<Rightarrow> val res" where
  "py_truediv a b = (case (as_num a, as_num b) of
       (Some x, Some y) \<Rightarrow> num_truediv x y
     | _ \<Rightarrow> Raise (PyException PyTypeError))"

text \<open>\<open>%\<close> and \<open>**\<close> are computed on integers (the remainder takes the sign of the
  divisor); on floats, and \<open>%\<close> on text (formatting), they are left to the host.\<close>

definition py_mod :: "val \<Rightarrow> val \<Rightarrow> val res" where
  "py_mod a b = (case (as_num a, as_num b) of
       (Some (NInt i), Some (NInt j)) \<Rightarrow>
         if j = 0 then Raise (PyException PyZeroDivisionError) else Ok (VInt (i mod j))
     | (Some x, Some y) \<Rightarrow> Unmodelled
     | _ \<Rightarrow> (case a of VStr s \<Rightarrow> Unmodelled | _ \<Rightarrow> Raise (PyException PyTypeError)))"

definition py_pow :: "val \<Rightarrow> val \<Rightarrow> val res" where
  "py_pow a b = (case (as_num a, as_num b) of
       (Some (NInt i), Some (NInt j)) \<Rightarrow> if 0 \<le> j then Ok (VInt (i ^ nat j)) else Unmodelled
     | (Some x, Some y) \<Rightarrow> Unmodelled
     | _ \<Rightarrow> Raise (PyException PyTypeError))"

text \<open>Ordering: numbers among themselves, text by code points; sequences are left
  to the host, anything else is a host \<open>TypeError\<close>.\<close>

fun str_less :: "string \<Rightarrow> string \<Rightarrow> bool" where
  "str_less s [] = False"
| "str_less [] (d # t) = True"
| "str_less (c # s) (d # t) =
     ((of_char c :: nat) < of_char d \<or> (c = d \<and> str_less s t))"

definition py_lt :: "val \<Rightarrow> val \<Rightarrow> bool res" where
  "py_lt a b = (case (as_num a, as_num b) of
       (Some x, Some y) \<Rightarrow> Ok (fl_less (exact x) (exact y))
     | _ \<Rightarrow> (case (a, b) of
          (VStr s, VStr t) \<Rightarrow> Ok (str_less s t)
        | (VList xs, VList ys) \<Rightarrow> Unmodelled
        | _ \<Rightarrow> Raise (PyException PyTypeError)))"

definition py_le :: "val \<Rightarrow> val \<Rightarrow> bool res" where
  "py_le a b = (case (as_num a, as_num b) of
       (Some x, Some y) \<Rightarrow> Ok (fl_le (exact x) (exact y))
     | _ \<Rightarrow> (case (a, b) of
          (VStr s, VStr t) \<Rightarrow> Ok (str_less s t \<or> s = t)
        | (VList xs, VList ys) \<Rightarrow> Unmodelled
        | _ \<Rightarrow> Raise (PyException PyTypeError)))"

text \<open>\<open>left in right\<close>\<close>

fun is_infix :: "'a list \<Rightarrow> 'a list \<Rightarrow> bool" where
  "is_infix xs [] = (xs = [])"
| "is_infix xs (y # ys) = (take (length xs) (y # ys) = xs \<or> is_infix xs ys)"

definition py_in :: "val \<Rightarrow> val \<Rightarrow> bool res" where
  "py_in a b = (case b of
       VList xs \<Rightarrow> Ok (list_ex (\<lambda>x. x = a \<or> py_eq x a) xs)
     | VMap m \<Rightarrow> Ok (dict_get m a \<noteq> None)
     | VRange i j \<Rightarrow> Ok (list_ex (\<lambda>k. scalar_eq (VInt k) a) [i..j - 1])
     | VStr t \<Rightarrow> (case a of VStr s \<Rightarrow> Ok (is_infix s t)
                  | _ \<Rightarrow> Raise (PyException PyTypeError))
     | _ \<Rightarrow> Raise (PyException PyTypeError))"

definition res_map :: "('a \<Rightarrow> 'b) \<Rightarrow> 'a res \<Rightarrow> 'b res" where
  "res_map f r = (case r of Ok x \<Rightarrow> Ok (f x) | Raise e \<Rightarrow> Raise e
     | OutOfFuel \<Rightarrow> OutOfFuel | Unmodelled \<Rightarrow> Unmodelled)"


section \<open>The evaluator's monad\<close>

definition ret :: "'a \<Rightarrow> 'a M" where
  "ret x = (\<lambda>s. (Ok x, s))"

definition raise :: "exn \<Rightarrow> 'a M" where
  "raise e = (\<lambda>s. (Raise e, s))"

definition unmodelled :: "'a M" where
  "unmodelled = (\<lambda>s. (Unmodelled, s))"

definition lift :: "'a res \<Rightarrow> 'a M" where
  "lift r = (\<lambda>s. (r, s))"

definition bnd :: "'a M \<Rightarrow> ('a \<Rightarrow> 'b M) \<Rightarrow> 'b M" where
  "bnd m f = (\<lambda>s. case m s of
       (Ok x, s') \<Rightarrow> f x s'
     | (Raise e, s') \<Rightarrow> (Raise e, s')
     | (OutOfFuel, s') \<Rightarrow> (OutOfFuel, s')
     | (Unmodelled, s') \<Rightarrow> (Unmodelled, s'))"

text \<open>\<open>prev_env = self.current_env; self.current_env = env; try: ... finally:
  self.current_env = prev_env\<close>\<close>

definition with_env :: "nat list \<Rightarrow> 'a M \<Rightarrow> 'a M" where
  "with_env env m = (\<lambda>s.
     case m (s\<lparr>current_env := env\<rparr>) of
       (r, s') \<Rightarrow> (r, s'\<lparr>current_env := current_env s\<rparr>))"

section \<open>Scope chain (environment.py)\<close>

definition empty_environment :: "string \<Rightarrow> environment" where
  "empty_environment nm =
     \<lparr>scope_name = nm, variables = [], immutables = {}, constants = {}, types = []\<rparr>"

text \<open>\<open>Environment.child\<close>: a new frame whose parent is the receiver.\<close>

definition child :: "nat list \<Rightarrow> string \<Rightarrow> (nat list) M" where
  "child env nm = (\<lambda>s.
     (Ok (length (frames s) # env),
      s\<lparr>frames := frames s @ [empty_environment nm]\<rparr>))"

text \<open>\<open>Environment.define\<close>, on one frame.\<close>

definition define_frame ::
  "string \<Rightarrow> val \<Rightarrow> bool \<Rightarrow> bool \<Rightarrow> string option \<Rightarrow> environment \<Rightarrow> environment" where
  "define_frame nm v mutable constant type_hint f =
     f\<lparr>variables := AList.update nm v (variables f),
       immutables := (if \<not> mutable \<or> constant then insert nm (immutables f)
                      else immutables f),
       constants := (if constant then insert nm (constants f) else constants f),
       types := (case type_hint of None \<Rightarrow> types f
                 | Some h \<Rightarrow> if h = [] then types f else AList.update nm h (types f))\<rparr>"

definition env_define ::
  "nat list \<Rightarrow> string \<Rightarrow> val \<Rightarrow> bool \<Rightarrow> bool \<Rightarrow> string option \<Rightarrow> unit M" where
  "env_define env nm v mutable constant type_hint = (\<lambda>s.
     case env of
       [] \<Rightarrow> (Ok (), s)
     | a # _ \<Rightarrow>
         (Ok (), s\<lparr>frames := (frames s)[a :=
                    define_frame nm v mutable constant type_hint (frames s ! a)]\<rparr>))"

text \<open>\<open>Environment.get\<close>: the nearest frame that holds the name.\<close>

fun env_get :: "environment list \<Rightarrow> nat list \<Rightarrow> string \<Rightarrow> val res" where
  "env_get fs [] nm = Raise (RiftError NameError (''Undefined variable '' @ [CHR 0x27] @ nm @ [CHR 0x27]))"
| "env_get fs (a # ps) nm =
     (case map_of (variables (fs ! a)) nm of
        Some v \<Rightarrow> Ok v
      | None \<Rightarrow> env_get fs ps nm)"

definition get :: "nat list \<Rightarrow> string \<Rightarrow> val M" where
  "get env nm = (\<lambda>s. (env_get (frames s) env nm, s))"

text \<open>\<open>Environment.set\<close>: writes the nearest frame that holds the name, unless the
  name is constant or immutable there.\<close>

fun env_set ::
  "environment list \<Rightarrow> nat list \<Rightarrow> string \<Rightarrow> val \<Rightarrow> environment list res" where
  "env_set fs [] nm v = Raise (RiftError NameError (''Undefined variable '' @ [CHR 0x27] @ nm @ [CHR 0x27]))"
| "env_set fs (a # ps) nm v =
     (if nm \<in> fst ` set (variables (fs ! a)) then
        if nm \<in> constants (fs ! a) then
          Raise (RiftError AssignmentError
            (''Cannot reassign constant '' @ [CHR 0x27] @ nm @ [CHR 0x27]))
        else if nm \<in> immutables (fs ! a) then
          Raise (RiftError AssignmentError
            (''Cannot reassign immutable variable '' @ [CHR 0x27] @ nm @ [CHR 0x27]
              @ '' (use '' @ [CHR 0x27] @ ''mut'' @ [CHR 0x27] @ '' to make it mutable)''))
        else Ok (fs[a := (fs ! a)\<lparr>variables := AList.update nm v (variables (fs ! a))\<rparr>])
      else env_set fs ps nm v)"

definition set_var :: "nat list \<Rightarrow> string \<Rightarrow> val \<Rightarrow> unit M" where
  "set_var env nm v = (\<lambda>s.
     case env_set (frames s) env nm v of
       Ok fs' \<Rightarrow> (Ok (), s\<lparr>frames := fs'\<rparr>)
     | Raise e \<Rightarrow> (Raise e, s)
     | OutOfFuel \<Rightarrow> (OutOfFuel, s)
     | Unmodelled \<Rightarrow> (Unmodelled, s))"


text \<open>
  \<open>GlobalEnvironment._setup_builtins\<close> and \<open>Interpreter._setup_builtins\<close>: the global
  frame holds the constants \<open>yes\<close>, \<open>no\<close>, \<open>none\<close> and the host functions, all
  immutable.
\<close>

definition builtin_names :: "string list" where
  "builtin_names = [''print'', ''input'', ''len'', ''type'', ''range'', ''map'', ''filter'',
     ''reduce'', ''sort'', ''reverse'', ''keys'', ''values'', ''entries'', ''split'', ''join'',
     ''now'', ''sleep'', ''str'', ''num'', ''int'', ''float'', ''bool'', ''list'', ''sum'',
     ''min'', ''max'', ''abs'', ''round'', ''floor'', ''ceil'', ''push'', ''pop'', ''shift'',
     ''unshift'', ''slice'', ''indexOf'', ''includes'', ''find'', ''every'', ''some'',
     ''concat'', ''flat'', ''fill'', ''upper'', ''lower'', ''trim'', ''replace'',
     ''startsWith'', ''endsWith'', ''charAt'', ''substring'', ''repeat'', ''padStart'',
     ''padEnd'']"

definition global_frame :: environment where
  "global_frame =
     fold (\<lambda>nm. define_frame nm (Builtin nm) False False None) builtin_names
       (define_frame ''none'' VNone False True None
         (define_frame ''no'' (VBool False) False True None
           (define_frame ''yes'' (VBool True) False True None
             (empty_environment ''global''))))"

definition new_interpreter :: interp where
  "new_interpreter =
     \<lparr>frames = [global_frame], instances = [], current_env = [0], global_env = [0]\<rparr>"

text \<open>The frame a write to a name resolves to: the nearest one that holds the name.\<close>

fun nearest :: "environment list \<Rightarrow> nat list \<Rightarrow> string \<Rightarrow> nat option" where
  "nearest fs [] nm = None"
| "nearest fs (a # ps) nm =
     (if nm \<in> fst ` set (variables (fs ! a)) then Some a else nearest fs ps nm)"

text \<open>The nearest binding of a name was declared with \<open>let\<close> or \<open>const\<close>.\<close>

definition immutable_binding :: "interp \<Rightarrow> nat list \<Rightarrow> string \<Rightarrow> bool" where
  "immutable_binding s env nm =
     (case nearest (frames s) env nm of
        None \<Rightarrow> False
      | Some a \<Rightarrow> nm \<in> immutables (frames s ! a) \<or> nm \<in> constants (frames s ! a))"

definition is_assign_error :: "'a res \<Rightarrow> bool" where
  "is_assign_error r = (case r of Raise (RiftError AssignmentError _) \<Rightarrow> True | _ \<Rightarrow> False)"

section \<open>The evaluator (interpreter.py): statements\<close>

text \<open>
  Every \<open>_eval_\<close> method becomes a definition that takes the recursive entry points
  as parameters: \<open>ev\<close> is \<open>self.evaluate\<close>, \<open>cl\<close> is \<open>self._call\<close> and \<open>mp\<close> is
  \<open>self._match_pattern\<close>. They are tied together by recursion on the fuel below.
\<close>

definition current :: "(nat list) M" where
  "current = (\<lambda>s. (Ok (current_env s), s))"

definition quoted :: "string \<Rightarrow> string" where
  "quoted nm = [CHR 0x27] @ nm @ [CHR 0x27]"

fun lit_val :: "lit \<Rightarrow> val" where
  "lit_val LNone = VNone"
| "lit_val (LBool b) = VBool b"
| "lit_val (LInt i) = VInt i"
| "lit_val (LFloat f) = VFloat f"
| "lit_val (LStr s) = VStr s"

text \<open>\<open>evaluate(None)\<close> is \<open>None\<close>.\<close>

definition evaluate_opt :: "(node \<Rightarrow> val M) \<Rightarrow> node option \<Rightarrow> val M" where
  "evaluate_opt ev nd = (case nd of None \<Rightarrow> ret VNone | Some e \<Rightarrow> ev e)"

fun eval_list :: "(node \<Rightarrow> val M) \<Rightarrow> node list \<Rightarrow> (val list) M" where
  "eval_list ev [] = ret []"
| "eval_list ev (e # es) = bnd (ev e) (\<lambda>v. bnd (eval_list ev es) (\<lambda>vs. ret (v # vs)))"

text \<open>\<open>_eval_Block\<close>: \<open>result = None; for stmt in statements: result = evaluate(stmt)\<close>\<close>

fun eval_statements :: "(node \<Rightarrow> val M) \<Rightarrow> node list \<Rightarrow> val \<Rightarrow> val M" where
  "eval_statements ev [] result = ret result"
| "eval_statements ev (stmt # rest) result = bnd (ev stmt) (eval_statements ev rest)"

definition eval_Block :: "(node \<Rightarrow> val M) \<Rightarrow> node list \<Rightarrow> val M" where
  "eval_Block ev statements = eval_statements ev statements VNone"

definition eval_VariableDeclaration ::
  "(node \<Rightarrow> val M) \<Rightarrow> string \<Rightarrow> string \<Rightarrow> string option \<Rightarrow> node option \<Rightarrow> val M" where
  "eval_VariableDeclaration ev kind nm type_hint init =
     bnd (evaluate_opt ev init) (\<lambda>v.
     bnd (case type_hint of
            None \<Rightarrow> ret ()
          | Some h \<Rightarrow>
              if h \<noteq> [] \<and> v \<noteq> VNone \<and> \<not> check_type v h then
                (\<lambda>s. (Raise (RiftError TypeError (''Expected type '' @ quoted h @ '', got ''
                          @ quoted (type_name (instances s) v))), s))
              else ret ()) (\<lambda>_.
     bnd current (\<lambda>env.
     bnd (env_define env nm v (kind = ''mut'') (kind = ''const'') type_hint) (\<lambda>_.
     ret VNone))))"

definition eval_FunctionDeclaration :: "string \<Rightarrow> param list \<Rightarrow> node \<Rightarrow> val M" where
  "eval_FunctionDeclaration nm params body =
     bnd current (\<lambda>env.
     bnd (env_define env nm (RiftFunction nm params body env False) False False None) (\<lambda>_.
     ret (RiftFunction nm params body env False)))"

definition eval_IfStatement ::
  "(node \<Rightarrow> val M) \<Rightarrow> node \<Rightarrow> node \<Rightarrow> node option \<Rightarrow> val M" where
  "eval_IfStatement ev condition then_branch else_branch =
     bnd (ev condition) (\<lambda>c.
       if is_truthy c then ev then_branch
       else (case else_branch of Some e \<Rightarrow> ev e | None \<Rightarrow> ret VNone))"

text \<open>\<open>_eval_WhileStatement\<close>; the first argument bounds the number of iterations.\<close>

fun while_loop :: "nat \<Rightarrow> (node \<Rightarrow> val M) \<Rightarrow> node \<Rightarrow> node \<Rightarrow> val \<Rightarrow> val M" where
  "while_loop 0 ev condition body result = (\<lambda>s. (OutOfFuel, s))"
| "while_loop (Suc k) ev condition body result =
     bnd (ev condition) (\<lambda>c.
       if is_truthy c then
         (\<lambda>s. case ev body s of
            (Ok r, s') \<Rightarrow> while_loop k ev condition body r s'
          | (Raise BreakSignal, s') \<Rightarrow> (Ok result, s')
          | (Raise ContinueSignal, s') \<Rightarrow> while_loop k ev condition body result s'
          | (other, s') \<Rightarrow> (other, s'))
       else ret result)"

text \<open>\<open>for name, val in bindings.items(): env.define(name, val, mutable=False)\<close>\<close>

fun define_all :: "nat list \<Rightarrow> (string \<times> val) list \<Rightarrow> unit M" where
  "define_all env [] = ret ()"
| "define_all env (b # bs) =
     bnd (env_define env (fst b) (snd b) False False None) (\<lambda>_. define_all env bs)"

text \<open>\<open>bindings.update(sub_bindings)\<close>\<close>

definition update_all :: "(string \<times> val) list \<Rightarrow> (string \<times> val) list \<Rightarrow> (string \<times> val) list" where
  "update_all sub bindings = fold (\<lambda>b. AList.update (fst b) (snd b)) sub bindings"

type_synonym matched = "bool \<times> (string \<times> val) list"

text \<open>\<open>_match_pattern\<close>, list patterns: \<open>for p, v in zip(pattern.elements, value)\<close>\<close>

fun match_elements ::
  "(node \<Rightarrow> val \<Rightarrow> matched M) \<Rightarrow> node list \<Rightarrow> val list \<Rightarrow> (string \<times> val) list \<Rightarrow> matched M" where
  "match_elements mp [] vs bindings = ret (True, bindings)"
| "match_elements mp (p # ps) [] bindings = ret (True, bindings)"
| "match_elements mp (p # ps) (v # vs) bindings =
     bnd (mp p v) (\<lambda>r.
       if \<not> fst r then ret (False, bindings)
       else match_elements mp ps vs (update_all (snd r) bindings))"

text \<open>\<open>_match_pattern\<close>, map patterns: \<open>for key, pat in pattern.entries\<close>\<close>

fun match_entries ::
  "(node \<Rightarrow> val M) \<Rightarrow> (node \<Rightarrow> val \<Rightarrow> matched M) \<Rightarrow> (node option \<times> node) list
    \<Rightarrow> (val \<times> val) list \<Rightarrow> (string \<times> val) list \<Rightarrow> matched M" where
  "match_entries ev mp [] m bindings = ret (True, bindings)"
| "match_entries ev mp (e # es) m bindings =
     bnd (evaluate_opt ev (fst e)) (\<lambda>key_val.
       case key_val of
         VList xs \<Rightarrow> raise (PyException PyTypeError)
       | VMap m' \<Rightarrow> raise (PyException PyTypeError)
       | _ \<Rightarrow>
         (case dict_get m key_val of
            None \<Rightarrow> ret (False, bindings)
          | Some v \<Rightarrow>
              bnd (mp (snd e) v) (\<lambda>r.
                if \<not> fst r then ret (False, bindings)
                else match_entries ev mp es m (update_all (snd r) bindings))))"

definition match_pattern_step ::
  "(node \<Rightarrow> val M) \<Rightarrow> (node \<Rightarrow> val \<Rightarrow> matched M) \<Rightarrow> node \<Rightarrow> val \<Rightarrow> matched M" where
  "match_pattern_step ev mp pattern v =
     (case pattern of
        WildcardPattern \<Rightarrow> ret (True, [])
      | Literal l \<Rightarrow> ret (py_eq (lit_val l) v, [])
      | BindingPattern nm \<Rightarrow> ret (True, [(nm, v)])
      | RangePattern st en \<Rightarrow>
          bnd (ev st) (\<lambda>start.
          bnd (ev en) (\<lambda>stop.
            case as_num v of
              None \<Rightarrow> ret (False, [])
            | Some n \<Rightarrow>
                bnd (lift (py_le start v)) (\<lambda>lo.
                  if \<not> lo then ret (False, [])
                  else bnd (lift (py_le v stop)) (\<lambda>hi. ret (hi, [])))))
      | ListLiteral elements \<Rightarrow>
          (case v of
             VList vs \<Rightarrow>
               if length elements \<noteq> length vs then ret (False, [])
               else match_elements mp elements vs []
           | _ \<Rightarrow> ret (False, []))
      | MapLiteral entries \<Rightarrow>
          (case v of
             VMap m \<Rightarrow> match_entries ev mp entries m []
           | _ \<Rightarrow> ret (False, []))
      | _ \<Rightarrow>
          (\<lambda>s. case ev pattern s of
             (Ok pattern_val, s') \<Rightarrow> (Ok (py_eq pattern_val v, []), s')
           | (Raise e, s') \<Rightarrow> (Ok (False, []), s')
           | (OutOfFuel, s') \<Rightarrow> (OutOfFuel, s')
           | (Unmodelled, s') \<Rightarrow> (Unmodelled, s')))"

text \<open>\<open>_eval_CheckStatement\<close>: the scope a case's guard or body runs in.\<close>

definition in_check_scope :: "(string \<times> val) list \<Rightarrow> val M \<Rightarrow> val M" where
  "in_check_scope bindings m =
     bnd current (\<lambda>cur.
     bnd (child cur ''check'') (\<lambda>env.
     bnd (define_all env bindings) (\<lambda>_.
     with_env env m)))"

fun check_cases ::
  "(node \<Rightarrow> val M) \<Rightarrow> (node \<Rightarrow> val \<Rightarrow> matched M) \<Rightarrow> val \<Rightarrow> checkcase list \<Rightarrow> val M" where
  "check_cases ev mp v [] = ret VNone"
| "check_cases ev mp v (c # cs) =
     bnd (mp (case_pattern c) v) (\<lambda>r.
       if fst r then
         bnd (case case_guard c of
                None \<Rightarrow> ret True
              | Some g \<Rightarrow> bnd (in_check_scope (snd r) (ev g)) (\<lambda>guard_result.
                            ret (is_truthy guard_result))) (\<lambda>pass.
           if pass then in_check_scope (snd r) (ev (case_body c))
           else check_cases ev mp v cs)
       else check_cases ev mp v cs)"

definition eval_CheckStatement ::
  "(node \<Rightarrow> val M) \<Rightarrow> (node \<Rightarrow> val \<Rightarrow> matched M) \<Rightarrow> node \<Rightarrow> checkcase list \<Rightarrow> val M" where
  "eval_CheckStatement ev mp scrutinee cases =
     bnd (ev scrutinee) (\<lambda>v. check_cases ev mp v cases)"

text \<open>\<open>_eval_TryStatement\<close>\<close>

fun is_signal :: "exn \<Rightarrow> bool" where
  "is_signal BreakSignal = True"
| "is_signal ContinueSignal = True"
| "is_signal (ReturnSignal v) = True"
| "is_signal (YieldSignal v) = True"
| "is_signal e = False"

text \<open>\<open>str(e)\<close> of a caught failure; the text of a host exception is the host's.\<close>

fun exn_text :: "exn \<Rightarrow> string option" where
  "exn_text (RiftError k msg) = Some msg"
| "exn_text e = None"

text \<open>The body of both \<open>except\<close> clauses: without a catch block the failure is
  dropped and the result stays \<open>None\<close>.\<close>

definition run_catch ::
  "(node \<Rightarrow> val M) \<Rightarrow> string option \<Rightarrow> node option \<Rightarrow> exn \<Rightarrow> val M" where
  "run_catch ev catch_var catch_block e =
     (case catch_block of
        None \<Rightarrow> ret VNone
      | Some cb \<Rightarrow>
          bnd current (\<lambda>cur.
          bnd (child cur ''catch'') (\<lambda>env.
          bnd (case catch_var of
                 None \<Rightarrow> ret ()
               | Some cv \<Rightarrow>
                   if cv = [] then ret ()
                   else (case exn_text e of
                           None \<Rightarrow> unmodelled
                         | Some t \<Rightarrow> env_define env cv (VStr t) False False None)) (\<lambda>_.
          with_env env (ev cb)))))"

text \<open>\<open>finally: if node.finally_block: self.evaluate(node.finally_block)\<close>: the
  pending result or exception continues unless the finally block raises itself.\<close>

definition run_finally ::
  "(node \<Rightarrow> val M) \<Rightarrow> node option \<Rightarrow> val res \<times> interp \<Rightarrow> val res \<times> interp" where
  "run_finally ev finally_block pending =
     (case pending of
        (OutOfFuel, s) \<Rightarrow> (OutOfFuel, s)
      | (Unmodelled, s) \<Rightarrow> (Unmodelled, s)
      | (r, s) \<Rightarrow>
          (case finally_block of
             None \<Rightarrow> (r, s)
           | Some fb \<Rightarrow>
               (case ev fb s of
                  (Ok v, s') \<Rightarrow> (r, s')
                | (other, s') \<Rightarrow> (other, s'))))"

definition eval_TryStatement ::
  "(node \<Rightarrow> val M) \<Rightarrow> node \<Rightarrow> string option \<Rightarrow> node option \<Rightarrow> node option \<Rightarrow> val M" where
  "eval_TryStatement ev try_block catch_var catch_block finally_block = (\<lambda>s.
     case ev try_block s of
       (Ok v, s1) \<Rightarrow> run_finally ev finally_block (Ok v, s1)
     | (Raise e, s1) \<Rightarrow>
         if is_signal e then run_finally ev finally_block (Raise e, s1)
         else run_finally ev finally_block (run_catch ev catch_var catch_block e s1)
     | (OutOfFuel, s1) \<Rightarrow> (OutOfFuel, s1)
     | (Unmodelled, s1) \<Rightarrow> (Unmodelled, s1))"

definition eval_FailStatement :: "(node \<Rightarrow> val M) \<Rightarrow> node \<Rightarrow> val M" where
  "eval_FailStatement ev error =
     bnd (ev error) (\<lambda>v.
       case py_str v of
         None \<Rightarrow> unmodelled
       | Some t \<Rightarrow> raise (RiftError RuntimeError t))"

definition eval_GiveStatement :: "(node \<Rightarrow> val M) \<Rightarrow> node option \<Rightarrow> val M" where
  "eval_GiveStatement ev v = bnd (evaluate_opt ev v) (\<lambda>r. raise (ReturnSignal r))"

text \<open>\<open>_eval_ClassDeclaration\<close>: the loop over the members of the body.\<close>

record class_parts =
  part_methods :: "(string \<times> val) list"
  part_properties :: "(string \<times> val) list"
  part_static_methods :: "(string \<times> val) list"
  part_static_properties :: "(string \<times> val) list"
  part_constructor :: "(param list \<times> node) option"

fun class_members :: "(node \<Rightarrow> val M) \<Rightarrow> node list \<Rightarrow> class_parts \<Rightarrow> class_parts M" where
  "class_members ev [] acc = ret acc"
| "class_members ev (member # rest) acc =
     (case member of
        Constructor ps b \<Rightarrow> class_members ev rest (acc\<lparr>part_constructor := Some (ps, b)\<rparr>)
      | MethodDeclaration nm ps b static \<Rightarrow>
          bnd current (\<lambda>env.
            if static then
              class_members ev rest (acc\<lparr>part_static_methods :=
                AList.update nm (RiftFunction nm ps b env True) (part_static_methods acc)\<rparr>)
            else
              class_members ev rest (acc\<lparr>part_methods :=
                AList.update nm (RiftFunction nm ps b env True) (part_methods acc)\<rparr>))
      | PropertyDeclaration nm init static \<Rightarrow>
          bnd (evaluate_opt ev init) (\<lambda>v.
            if static then
              class_members ev rest (acc\<lparr>part_static_properties :=
                AList.update nm v (part_static_properties acc)\<rparr>)
            else
              class_members ev rest (acc\<lparr>part_properties :=
                AList.update nm v (part_properties acc)\<rparr>))
      | _ \<Rightarrow> class_members ev rest acc)"

fun is_class :: "val \<Rightarrow> bool" where
  "is_class (RiftClass n ms ps par sm sp c) = True"
| "is_class v = False"

definition eval_ClassDeclaration ::
  "(node \<Rightarrow> val M) \<Rightarrow> string \<Rightarrow> string option \<Rightarrow> node list \<Rightarrow> val M" where
  "eval_ClassDeclaration ev nm parent_name body =
     bnd (case parent_name of
            None \<Rightarrow> ret None
          | Some pn \<Rightarrow>
              if pn = [] then ret None
              else bnd current (\<lambda>env.
                   bnd (get env pn) (\<lambda>p.
                     if is_class p then ret (Some p)
                     else raise (RiftError TypeError
                            (''Cannot extend non-class '' @ quoted pn))))) (\<lambda>par.
     bnd (class_members ev body
            \<lparr>part_methods = [], part_properties = [], part_static_methods = [],
             part_static_properties = [], part_constructor = None\<rparr>) (\<lambda>parts.
     bnd current (\<lambda>env.
     bnd (env_define env nm
            (RiftClass nm (part_methods parts) (part_properties parts) par
               (part_static_methods parts) (part_static_properties parts)
               (part_constructor parts)) False False None) (\<lambda>_.
     ret (RiftClass nm (part_methods parts) (part_properties parts) par
            (part_static_methods parts) (part_static_properties parts)
            (part_constructor parts))))))"


section \<open>The evaluator: expressions\<close>

definition eval_Identifier :: "string \<Rightarrow> val M" where
  "eval_Identifier nm = bnd current (\<lambda>env. get env nm)"

fun is_str :: "val \<Rightarrow> bool" where
  "is_str (VStr s) = True"
| "is_str v = False"

text \<open>The operator chain of \<open>_eval_BinaryOp\<close>, on the values of the operands.\<close>

definition binary_op :: "string \<Rightarrow> val \<Rightarrow> val \<Rightarrow> val res" where
  "binary_op op left right =
     (if op = ''+'' then
        (if is_str left \<or> is_str right then
           (case (py_str left, py_str right) of
              (Some a, Some b) \<Rightarrow> Ok (VStr (a @ b))
            | _ \<Rightarrow> Unmodelled)
         else py_add left right)
      else if op = ''-'' then py_sub left right
      else if op = ''*'' then py_mul left right
      else if op = ''/'' then
        (if py_eq right (VInt 0) then
           Raise (RiftError DivisionByZeroError ''Division by zero'')
         else py_truediv left right)
      else if op = ''%'' then py_mod left right
      else if op = ''**'' then py_pow left right
      else if op = ''=='' then Ok (VBool (py_eq left right))
      else if op = ''!='' then Ok (VBool (\<not> py_eq left right))
      else if op = ''<'' then res_map VBool (py_lt left right)
      else if op = ''>'' then res_map VBool (py_lt right left)
      else if op = ''<='' then res_map VBool (py_le left right)
      else if op = ''>='' then res_map VBool (py_le right left)
      else if op = ''in'' then res_map VBool (py_in left right)
      else Raise (RiftError RuntimeError (''Unknown operator: '' @ op)))"

definition eval_BinaryOp :: "(node \<Rightarrow> val M) \<Rightarrow> string \<Rightarrow> node \<Rightarrow> node \<Rightarrow> val M" where
  "eval_BinaryOp ev op l r =
     bnd (ev l) (\<lambda>left. bnd (ev r) (\<lambda>right. lift (binary_op op left right)))"

definition unary_op :: "string \<Rightarrow> val \<Rightarrow> val res" where
  "unary_op op operand =
     (if op = ''-'' then
        (case as_num operand of
           Some (NInt i) \<Rightarrow> Ok (VInt (- i))
         | Some (NFloat f) \<Rightarrow> Ok (VFloat (fl_neg f))
         | None \<Rightarrow> Raise (PyException PyTypeError))
      else if op = ''+'' then
        (case as_num operand of
           Some (NInt i) \<Rightarrow> Ok (VInt i)
         | Some (NFloat f) \<Rightarrow> Ok (VFloat f)
         | None \<Rightarrow> Raise (PyException PyTypeError))
      else if op = ''not'' then Ok (VBool (\<not> is_truthy operand))
      else Raise (RiftError RuntimeError (''Unknown unary operator: '' @ op)))"

definition eval_UnaryOp :: "(node \<Rightarrow> val M) \<Rightarrow> string \<Rightarrow> node \<Rightarrow> val M" where
  "eval_UnaryOp ev op e = bnd (ev e) (\<lambda>operand. lift (unary_op op operand))"

definition eval_LogicalOp :: "(node \<Rightarrow> val M) \<Rightarrow> string \<Rightarrow> node \<Rightarrow> node \<Rightarrow> val M" where
  "eval_LogicalOp ev op l r =
     bnd (ev l) (\<lambda>left.
       if op = ''and'' then (if \<not> is_truthy left then ret left else ev r)
       else if op = ''or'' then (if is_truthy left then ret left else ev r)
       else ret VNone)"

text \<open>\<open>RiftInstance.set_property\<close>\<close>

definition set_property :: "nat \<Rightarrow> string \<Rightarrow> val \<Rightarrow> unit M" where
  "set_property a nm v = (\<lambda>s.
     (Ok (), s\<lparr>instances := (instances s)[a :=
        (instances s ! a)\<lparr>properties := AList.update nm v (properties (instances s ! a))\<rparr>]\<rparr>))"

text \<open>\<open>_eval_Assignment\<close>. Writing a key of a map in place is left to the host.\<close>

definition eval_Assignment :: "(node \<Rightarrow> val M) \<Rightarrow> node \<Rightarrow> node \<Rightarrow> string \<Rightarrow> val M" where
  "eval_Assignment ev target rhs op =
     bnd (ev rhs) (\<lambda>v0.
     bnd (if op \<noteq> ''='' then
            bnd (ev target) (\<lambda>old_value.
              if op = ''+='' then lift (py_add old_value v0)
              else if op = ''-='' then lift (py_sub old_value v0)
              else if op = ''*='' then lift (py_mul old_value v0)
              else if op = ''/='' then lift (py_truediv old_value v0)
              else ret v0)
          else ret v0) (\<lambda>v.
     bnd (case target of
            Identifier nm \<Rightarrow> bnd current (\<lambda>env. set_var env nm v)
          | MemberAccess obj prop safe \<Rightarrow>
              bnd (ev obj) (\<lambda>ob.
                case ob of
                  RiftInstance a \<Rightarrow> set_property a prop v
                | VMap m \<Rightarrow> unmodelled
                | _ \<Rightarrow> (\<lambda>s. (Raise (RiftError TypeError
                          (''Cannot set property on '' @ type_name (instances s) ob)), s)))
          | _ \<Rightarrow> raise (RiftError RuntimeError ''Invalid assignment target'')) (\<lambda>_.
     ret v)))"

text \<open>Parameter binding, shared by \<open>_call_function\<close>, \<open>_call_lambda\<close>,
  \<open>_call_bound_method\<close> and \<open>_instantiate_class\<close>. \<open>evd\<close> evaluates a default
  expression; \<open>rest_ok\<close> says whether the loop has the rest-parameter branch (the
  constructor's loop has none).\<close>

fun bind_params ::
  "(node \<Rightarrow> val M) \<Rightarrow> bool \<Rightarrow> nat list \<Rightarrow> param list \<Rightarrow> val list \<Rightarrow> nat \<Rightarrow> unit M" where
  "bind_params evd rest_ok env [] args i = ret ()"
| "bind_params evd rest_ok env (p # ps) args i =
     (if rest_ok \<and> param_rest p then
        env_define env (param_name p) (VList (drop i args)) False False None
      else if i < length args then
        bnd (env_define env (param_name p) (args ! i) False False None) (\<lambda>_.
          bind_params evd rest_ok env ps args (Suc i))
      else
        (case param_default p of
           Some d \<Rightarrow>
             bnd (evd d) (\<lambda>default_val.
             bnd (env_define env (param_name p) default_val False False None) (\<lambda>_.
               bind_params evd rest_ok env ps args (Suc i)))
         | None \<Rightarrow>
             bnd (env_define env (param_name p) VNone False False None) (\<lambda>_.
               bind_params evd rest_ok env ps args (Suc i))))"

text \<open>\<open>except ReturnSignal as ret: return ret.value\<close>\<close>

definition catch_return :: "val M \<Rightarrow> val M" where
  "catch_return m = (\<lambda>s.
     case m s of
       (Raise (ReturnSignal v), s') \<Rightarrow> (Ok v, s')
     | (other, s') \<Rightarrow> (other, s'))"

text \<open>The body of the \<open>try\<close> in \<open>_call_function\<close>: the body is evaluated, and when
  it is a block that ends in an expression statement, that expression is evaluated
  after it.\<close>

definition body_with_auto_return :: "(node \<Rightarrow> val M) \<Rightarrow> node \<Rightarrow> val M" where
  "body_with_auto_return ev body =
     bnd (ev body) (\<lambda>result.
       case body of
         Block statements \<Rightarrow>
           if statements \<noteq> [] then
             (case last statements of
                ExpressionStatement e \<Rightarrow> ev e
              | _ \<Rightarrow> ret result)
           else ret result
       | _ \<Rightarrow> ret result)"

definition call_function ::
  "(node \<Rightarrow> val M) \<Rightarrow> string \<Rightarrow> param list \<Rightarrow> node \<Rightarrow> nat list \<Rightarrow> val list \<Rightarrow> val M" where
  "call_function ev nm params body closure args =
     bnd (child closure nm) (\<lambda>env.
     bnd (bind_params ev True env params args 0) (\<lambda>_.
     with_env env (catch_return (body_with_auto_return ev body))))"

definition call_lambda ::
  "(node \<Rightarrow> val M) \<Rightarrow> param list \<Rightarrow> node \<Rightarrow> nat list \<Rightarrow> val list \<Rightarrow> val M" where
  "call_lambda ev params body closure args =
     bnd (child closure ''lambda'') (\<lambda>env.
     bnd (bind_params (\<lambda>d. with_env env (ev d)) True env params args 0) (\<lambda>_.
     with_env env (catch_return (ev body))))"

definition call_bound_method :: "(node \<Rightarrow> val M) \<Rightarrow> nat \<Rightarrow> val \<Rightarrow> val list \<Rightarrow> val M" where
  "call_bound_method ev inst m args =
     (case m of
        RiftFunction nm params body closure is_method \<Rightarrow>
          bnd (child closure nm) (\<lambda>env.
          bnd (env_define env ''me'' (RiftInstance inst) False False None) (\<lambda>_.
          bnd (bind_params ev True env params args 0) (\<lambda>_.
          with_env env (catch_return (ev body)))))
      | _ \<Rightarrow> raise (PyException PyAttributeError))"

text \<open>\<open>RiftInstance(cls)\<close>: a new instance with the class's own default properties.\<close>

definition new_instance :: "val \<Rightarrow> nat M" where
  "new_instance cls = (\<lambda>s.
     (Ok (length (instances s)),
      s\<lparr>instances := instances s @
           [\<lparr>inst_class = cls, properties = cls_properties cls\<rparr>]\<rparr>))"

text \<open>\<open>try: self.evaluate(constructor.body) except ReturnSignal: pass\<close>\<close>

definition absorb_return :: "val M \<Rightarrow> unit M" where
  "absorb_return m = (\<lambda>s.
     case m s of
       (Ok v, s') \<Rightarrow> (Ok (), s')
     | (Raise (ReturnSignal v), s') \<Rightarrow> (Ok (), s')
     | (Raise e, s') \<Rightarrow> (Raise e, s')
     | (OutOfFuel, s') \<Rightarrow> (OutOfFuel, s')
     | (Unmodelled, s') \<Rightarrow> (Unmodelled, s'))"

text \<open>\<open>_instantiate_class\<close>: the scope of the constructor, with \<open>me\<close> and the
  parameters bound.\<close>

definition bind_constructor ::
  "(node \<Rightarrow> val M) \<Rightarrow> param list \<Rightarrow> val list \<Rightarrow> nat \<Rightarrow> (nat list) M" where
  "bind_constructor ev params args inst =
     bnd current (\<lambda>cur.
     bnd (child cur ''build'') (\<lambda>env.
     bnd (env_define env ''me'' (RiftInstance inst) False False None) (\<lambda>_.
     bnd (bind_params ev False env params args 0) (\<lambda>_.
     ret env))))"

definition instantiate_class :: "(node \<Rightarrow> val M) \<Rightarrow> val \<Rightarrow> val list \<Rightarrow> val M" where
  "instantiate_class ev cls args =
     bnd (new_instance cls) (\<lambda>inst.
       case cls_constructor cls of
         None \<Rightarrow> ret (RiftInstance inst)
       | Some ctor \<Rightarrow>
           bnd (bind_constructor ev (fst ctor) args inst) (\<lambda>env.
           bnd (with_env env (absorb_return (ev (snd ctor)))) (\<lambda>_.
           ret (RiftInstance inst))))"

text \<open>\<open>RiftInstance.get_property\<close> and \<open>get_method\<close>: the instance's own properties,
  then the ancestors' defaults; the class's methods, then the ancestors'.\<close>

fun class_lookup :: "bool \<Rightarrow> val \<Rightarrow> string \<Rightarrow> val option" where
  "class_lookup meth (RiftClass n ms ps par sm sp c) nm =
     (case map_of (if meth then ms else ps) nm of
        Some v \<Rightarrow> Some v
      | None \<Rightarrow> (case par of None \<Rightarrow> None | Some p \<Rightarrow> class_lookup meth p nm))"
| "class_lookup meth v nm = None"

definition get_property :: "rift_instance \<Rightarrow> string \<Rightarrow> val option" where
  "get_property inst nm =
     (case map_of (properties inst) nm of
        Some v \<Rightarrow> Some v
      | None \<Rightarrow> (case cls_parent (inst_class inst) of
                   None \<Rightarrow> None
                 | Some p \<Rightarrow> class_lookup False p nm))"

definition get_method :: "rift_instance \<Rightarrow> string \<Rightarrow> val option" where
  "get_method inst nm = class_lookup True (inst_class inst) nm"

text \<open>\<open>_get_string_method\<close> and \<open>_get_list_method\<close>: the tables of host accessors.\<close>

definition get_string_method :: "string \<Rightarrow> string \<Rightarrow> val res" where
  "get_string_method s m =
     (if m = ''length'' then Ok (VInt (int (length s)))
      else if m \<in> set [''upper'', ''lower'', ''split'', ''replace''] then Ok (PyMethod (VStr s) m)
      else if m = ''trim'' then Ok (PyMethod (VStr s) ''strip'')
      else if m = ''startsWith'' then Ok (PyMethod (VStr s) ''startswith'')
      else if m = ''endsWith'' then Ok (PyMethod (VStr s) ''endswith'')
      else if m = ''indexOf'' then Ok (PyMethod (VStr s) ''find'')
      else if m \<in> set [''includes'', ''charAt'', ''substring'', ''repeat'', ''padStart'',
                      ''padEnd''] then Ok (HostAccessor (VStr s) m)
      else Raise (RiftError NameError (''String has no method '' @ quoted m)))"

definition get_list_method :: "val list \<Rightarrow> string \<Rightarrow> val res" where
  "get_list_method lst m =
     (if m = ''length'' then Ok (VInt (int (length lst)))
      else if m = ''push'' then Ok (PyMethod (VList lst) ''append'')
      else if m = ''pop'' then Ok (PyMethod (VList lst) ''pop'')
      else if m \<in> set [''shift'', ''unshift'', ''slice'', ''indexOf'', ''includes'', ''join'',
                      ''reverse'', ''sort'', ''concat'', ''flat'', ''fill''] then
        Ok (HostAccessor (VList lst) m)
      else Raise (RiftError NameError (''List has no method '' @ quoted m)))"

text \<open>
  \<open>hasattr(obj, name)\<close> and \<open>getattr(obj, name)\<close> on a host object: the attributes its
  Python class defines. A name of the host's object protocol (\<open>__name__\<close>) is outside
  the embedding, and so is the value of an attribute that is not callable and that no
  other definition reads (\<open>OpaqueAttr\<close>).
\<close>

datatype attr = NoAttr | Attr val | OpaqueAttr | AttrUnmodelled

definition is_dunder :: "string \<Rightarrow> bool" where
  "is_dunder nm = (4 \<le> length nm \<and> take 2 nm = ''__'' \<and> drop (length nm - 2) nm = ''__'')"

definition str_methods :: "string list" where
  "str_methods = [''capitalize'', ''casefold'', ''center'', ''count'', ''encode'', ''endswith'',
     ''expandtabs'', ''find'', ''format'', ''format_map'', ''index'', ''isalnum'', ''isalpha'',
     ''isascii'', ''isdecimal'', ''isdigit'', ''isidentifier'', ''islower'', ''isnumeric'',
     ''isprintable'', ''isspace'', ''istitle'', ''isupper'', ''join'', ''ljust'', ''lower'',
     ''lstrip'', ''maketrans'', ''partition'', ''removeprefix'', ''removesuffix'', ''replace'',
     ''rfind'', ''rindex'', ''rjust'', ''rpartition'', ''rsplit'', ''rstrip'', ''split'',
     ''splitlines'', ''startswith'', ''strip'', ''swapcase'', ''title'', ''translate'',
     ''upper'', ''zfill'']"

definition list_methods :: "string list" where
  "list_methods = [''append'', ''clear'', ''copy'', ''count'', ''extend'', ''index'', ''insert'',
     ''pop'', ''remove'', ''reverse'', ''sort'']"

definition dict_methods :: "string list" where
  "dict_methods = [''clear'', ''copy'', ''fromkeys'', ''get'', ''items'', ''keys'', ''pop'',
     ''popitem'', ''setdefault'', ''update'', ''values'']"

definition int_methods :: "string list" where
  "int_methods = [''as_integer_ratio'', ''bit_count'', ''bit_length'', ''conjugate'',
     ''from_bytes'', ''to_bytes'']"

definition float_methods :: "string list" where
  "float_methods = [''as_integer_ratio'', ''conjugate'', ''fromhex'', ''hex'', ''is_integer'']"

definition method_attr :: "string list \<Rightarrow> val \<Rightarrow> string \<Rightarrow> attr" where
  "method_attr names v nm = (if nm \<in> set names then Attr (PyMethod v nm) else NoAttr)"

definition py_getattr :: "rift_instance list \<Rightarrow> val \<Rightarrow> string \<Rightarrow> attr" where
  "py_getattr insts v nm =
     (if is_dunder nm then AttrUnmodelled
      else case v of
        VStr s \<Rightarrow> method_attr str_methods v nm
      | VList xs \<Rightarrow> method_attr list_methods v nm
      | VMap m \<Rightarrow> method_attr dict_methods v nm
      | VInt i \<Rightarrow>
          if nm \<in> set [''real'', ''imag'', ''numerator'', ''denominator''] then OpaqueAttr
          else method_attr int_methods v nm
      | VBool b \<Rightarrow>
          if nm \<in> set [''real'', ''imag'', ''numerator'', ''denominator''] then OpaqueAttr
          else method_attr int_methods v nm
      | VFloat f \<Rightarrow>
          if nm \<in> set [''real'', ''imag''] then OpaqueAttr
          else method_attr float_methods v nm
      | VRange i j \<Rightarrow>
          if nm = ''start'' then Attr (VInt i)
          else if nm = ''stop'' then Attr (VInt j)
          else if nm = ''step'' then Attr (VInt 1)
          else method_attr [''count'', ''index''] v nm
      | RiftFunction n ps b clo im \<Rightarrow>
          if nm \<in> set [''declaration'', ''closure'', ''is_method'', ''is_async'',
                       ''is_generator''] then OpaqueAttr else NoAttr
      | RiftLambda ps b clo \<Rightarrow>
          if nm \<in> set [''node'', ''closure''] then OpaqueAttr else NoAttr
      | RiftBoundMethod a m \<Rightarrow>
          if nm = ''instance'' then Attr (RiftInstance a)
          else if nm = ''method'' then Attr m
          else NoAttr
      | RiftClass n ms ps par sm sp c \<Rightarrow>
          if nm = ''name'' then Attr (VStr n)
          else if nm = ''parent'' then Attr (case par of None \<Rightarrow> VNone | Some p \<Rightarrow> p)
          else if nm \<in> set [''methods'', ''properties'', ''static_methods'',
                            ''static_properties''] then OpaqueAttr
          else if nm = ''_constructor'' \<and> c \<noteq> None then OpaqueAttr
          else NoAttr
      | RiftInstance a \<Rightarrow>
          if nm = ''_class'' then Attr (inst_class (insts ! a))
          else if nm = ''_properties'' then OpaqueAttr
          else method_attr [''get_property'', ''set_property'', ''get_method''] v nm
      | _ \<Rightarrow> NoAttr)"

text \<open>\<open>_try_get_method\<close>\<close>

definition try_get_method :: "rift_instance list \<Rightarrow> val \<Rightarrow> string \<Rightarrow> val option res" where
  "try_get_method insts obj method_name =
     (case py_getattr insts obj method_name of
        AttrUnmodelled \<Rightarrow> Unmodelled
      | found \<Rightarrow>
          (case (case found of Attr a \<Rightarrow> if py_callable a then Some a else None
                 | _ \<Rightarrow> None) of
             Some a \<Rightarrow> Ok (Some a)
           | None \<Rightarrow>
               (case obj of
                  VMap m \<Rightarrow>
                    (case dict_get m (VStr method_name) of
                       Some f \<Rightarrow> if py_callable f then Ok (Some f) else Ok None
                     | None \<Rightarrow> Ok None)
                | _ \<Rightarrow> Ok None)))"

text \<open>\<open>_eval_MemberAccess\<close>\<close>

definition eval_MemberAccess :: "(node \<Rightarrow> val M) \<Rightarrow> node \<Rightarrow> string \<Rightarrow> bool \<Rightarrow> val M" where
  "eval_MemberAccess ev obj prop safe =
     bnd (ev obj) (\<lambda>ob.
       if safe \<and> ob = VNone then ret VNone
       else if ob = VNone then
         raise (RiftError TypeError (''Cannot access property '' @ quoted prop @ '' of none''))
       else case ob of
         RiftInstance a \<Rightarrow> (\<lambda>s.
           case get_property (instances s ! a) prop of
             Some v \<Rightarrow> (Ok v, s)
           | None \<Rightarrow>
               (case get_method (instances s ! a) prop of
                  Some m \<Rightarrow> (Ok (RiftBoundMethod a m), s)
                | None \<Rightarrow> (Raise (RiftError NameError
                    (quoted (cls_name (inst_class (instances s ! a)))
                      @ '' has no property or method '' @ quoted prop)), s)))
       | RiftClass n ms ps par sm sp c \<Rightarrow>
           (case map_of sp prop of
              Some v \<Rightarrow> ret v
            | None \<Rightarrow>
                (case map_of sm prop of
                   Some v \<Rightarrow> ret v
                 | None \<Rightarrow> raise (RiftError NameError
                     (''Class '' @ quoted n @ '' has no static member '' @ quoted prop))))
       | VMap m \<Rightarrow>
           (case dict_get m (VStr prop) of
              Some v \<Rightarrow> ret v
            | None \<Rightarrow>
                if safe then ret VNone
                else raise (RiftError NameError
                       (''Key '' @ quoted prop @ '' not found in map'')))
       | VStr s \<Rightarrow> lift (get_string_method s prop)
       | VList xs \<Rightarrow> lift (get_list_method xs prop)
       | _ \<Rightarrow> (\<lambda>s.
           case py_getattr (instances s) ob prop of
             Attr v \<Rightarrow> (Ok v, s)
           | NoAttr \<Rightarrow> (Raise (RiftError TypeError
               (''Cannot access property '' @ quoted prop @ '' of ''
                 @ type_name (instances s) ob)), s)
           | _ \<Rightarrow> (Unmodelled, s)))"

definition eval_ListLiteral :: "(node \<Rightarrow> val M) \<Rightarrow> node list \<Rightarrow> val M" where
  "eval_ListLiteral ev elements = bnd (eval_list ev elements) (\<lambda>vs. ret (VList vs))"

fun eval_entries ::
  "(node \<Rightarrow> val M) \<Rightarrow> (node option \<times> node) list \<Rightarrow> (val \<times> val) list \<Rightarrow> val M" where
  "eval_entries ev [] result = ret (VMap result)"
| "eval_entries ev (e # es) result =
     bnd (evaluate_opt ev (fst e)) (\<lambda>key_val.
     bnd (ev (snd e)) (\<lambda>v.
       case key_val of
         VList xs \<Rightarrow> raise (PyException PyTypeError)
       | VMap m \<Rightarrow> raise (PyException PyTypeError)
       | _ \<Rightarrow> eval_entries ev es (dict_set result key_val v)))"

definition eval_MapLiteral :: "(node \<Rightarrow> val M) \<Rightarrow> (node option \<times> node) list \<Rightarrow> val M" where
  "eval_MapLiteral ev entries = eval_entries ev entries []"

text \<open>\<open>_eval_Range\<close>: \<open>range(start, end + 1)\<close> when inclusive.\<close>

definition eval_Range :: "(node \<Rightarrow> val M) \<Rightarrow> node \<Rightarrow> node \<Rightarrow> bool \<Rightarrow> val M" where
  "eval_Range ev st en inclusive =
     bnd (ev st) (\<lambda>start.
     bnd (ev en) (\<lambda>stop.
       case (as_int start, as_int stop) of
         (Some a, Some b) \<Rightarrow>
           if inclusive then ret (VRange a (b + 1)) else ret (VRange a b)
       | _ \<Rightarrow> raise (RiftError TypeError ''Range bounds must be integers'')))"

text \<open>The elements of \<open>range(start, stop)\<close>.\<close>

definition range_elements :: "val \<Rightarrow> int list" where
  "range_elements v = (case v of VRange start stop \<Rightarrow> [start..stop - 1] | _ \<Rightarrow> [])"

definition eval_Lambda :: "param list \<Rightarrow> node \<Rightarrow> val M" where
  "eval_Lambda params body = bnd current (\<lambda>env. ret (RiftLambda params body env))"

definition eval_Yield :: "(node \<Rightarrow> val M) \<Rightarrow> node option \<Rightarrow> val M" where
  "eval_Yield ev e = bnd (evaluate_opt ev e) (\<lambda>v. raise (YieldSignal v))"

definition eval_Me :: "val M" where
  "eval_Me = (\<lambda>s.
     case env_get (frames s) (current_env s) ''me'' of
       Ok v \<Rightarrow> (Ok v, s)
     | Raise e \<Rightarrow> (Raise (RiftError NameError
         (quoted ''me'' @ '' can only be used inside a class method'')), s)
     | OutOfFuel \<Rightarrow> (OutOfFuel, s)
     | Unmodelled \<Rightarrow> (Unmodelled, s))"


section \<open>The evaluator: calls and pipelines\<close>

text \<open>The items a host loop (\<open>for item in iterable\<close>) visits.\<close>

definition iter_items :: "val \<Rightarrow> val list res" where
  "iter_items v = (case v of
       VList xs \<Rightarrow> Ok xs
     | VStr s \<Rightarrow> Ok (map (\<lambda>c. VStr [c]) s)
     | VMap m \<Rightarrow> Ok (map fst m)
     | VRange i j \<Rightarrow> Ok (map VInt [i..j - 1])
     | _ \<Rightarrow> Raise (PyException PyTypeError))"

fun map_call :: "(val \<Rightarrow> val list \<Rightarrow> val M) \<Rightarrow> val \<Rightarrow> val list \<Rightarrow> (val list) M" where
  "map_call cl f [] = ret []"
| "map_call cl f (item # items) =
     bnd (cl f [item]) (\<lambda>r. bnd (map_call cl f items) (\<lambda>rs. ret (r # rs)))"

fun filter_call :: "(val \<Rightarrow> val list \<Rightarrow> val M) \<Rightarrow> val \<Rightarrow> val list \<Rightarrow> (val list) M" where
  "filter_call cl f [] = ret []"
| "filter_call cl f (item # items) =
     bnd (cl f [item]) (\<lambda>r. bnd (filter_call cl f items) (\<lambda>rs.
       ret (if is_truthy r then item # rs else rs)))"

fun sum_items :: "val \<Rightarrow> val list \<Rightarrow> val res" where
  "sum_items acc [] = Ok acc"
| "sum_items acc (x # xs) = (case py_add acc x of
       Ok acc' \<Rightarrow> sum_items acc' xs
     | other \<Rightarrow> other)"

text \<open>
  The host functions \<open>_builtin_*\<close>. The embedding computes those the examples of the
  specification use; the call of any other one is left to the host. A call with the
  wrong number of arguments is the host's \<open>TypeError\<close>.
\<close>

definition call_builtin ::
  "(val \<Rightarrow> val list \<Rightarrow> val M) \<Rightarrow> string \<Rightarrow> val list \<Rightarrow> val M" where
  "call_builtin cl nm args =
     (if nm = ''len'' then
        (case args of
           [obj] \<Rightarrow>
             (case obj of
                VNone \<Rightarrow> ret (VInt 0)
              | VStr s \<Rightarrow> ret (VInt (int (length s)))
              | VList xs \<Rightarrow> ret (VInt (int (length xs)))
              | VMap m \<Rightarrow> ret (VInt (int (length m)))
              | VRange i j \<Rightarrow> ret (VInt (max 0 (j - i)))
              | _ \<Rightarrow> raise (PyException PyTypeError))
         | _ \<Rightarrow> raise (PyException PyTypeError))
      else if nm = ''type'' then
        (case args of
           [v] \<Rightarrow> (\<lambda>s. (Ok (VStr (type_name (instances s) v)), s))
         | _ \<Rightarrow> raise (PyException PyTypeError))
      else if nm = ''bool'' then
        (case args of
           [v] \<Rightarrow> ret (VBool (is_truthy v))
         | _ \<Rightarrow> raise (PyException PyTypeError))
      else if nm = ''map'' then
        (case args of
           [f, iterable] \<Rightarrow>
             bnd (lift (iter_items iterable)) (\<lambda>items.
             bnd (map_call cl f items) (\<lambda>rs. ret (VList rs)))
         | _ \<Rightarrow> raise (PyException PyTypeError))
      else if nm = ''filter'' then
        (case args of
           [f, iterable] \<Rightarrow>
             bnd (lift (iter_items iterable)) (\<lambda>items.
             bnd (filter_call cl f items) (\<lambda>rs. ret (VList rs)))
         | _ \<Rightarrow> raise (PyException PyTypeError))
      else if nm = ''sum'' then
        (case args of
           [iterable] \<Rightarrow>
             bnd (lift (iter_items iterable)) (\<lambda>items. lift (sum_items (VInt 0) items))
         | _ \<Rightarrow> raise (PyException PyTypeError))
      else if nm = ''includes'' then
        (case args of
           [obj, v] \<Rightarrow> lift (res_map VBool (py_in v obj))
         | _ \<Rightarrow> raise (PyException PyTypeError))
      else if nm = ''str'' then
        (case args of
           [v] \<Rightarrow>
             (if v = VNone then ret (VStr ''none'')
              else (case py_str v of Some t \<Rightarrow> ret (VStr t) | None \<Rightarrow> unmodelled))
         | _ \<Rightarrow> raise (PyException PyTypeError))
      else unmodelled)"

text \<open>The bound methods of a \<open>RiftInstance\<close> object itself (types.py).\<close>

definition call_instance_method :: "nat \<Rightarrow> string \<Rightarrow> val list \<Rightarrow> val M" where
  "call_instance_method a m args =
     (if m = ''get_property'' then
        (case args of
           [VStr nm] \<Rightarrow> (\<lambda>s.
             case get_property (instances s ! a) nm of
               Some v \<Rightarrow> (Ok v, s)
             | None \<Rightarrow> (Raise (PyException PyAttributeError), s))
         | _ \<Rightarrow> unmodelled)
      else if m = ''get_method'' then
        (case args of
           [VStr nm] \<Rightarrow> (\<lambda>s.
             case get_method (instances s ! a) nm of
               Some v \<Rightarrow> (Ok v, s)
             | None \<Rightarrow> (Raise (PyException PyAttributeError), s))
         | _ \<Rightarrow> unmodelled)
      else if m = ''set_property'' then
        (case args of
           [VStr nm, v] \<Rightarrow> bnd (set_property a nm v) (\<lambda>_. ret VNone)
         | _ \<Rightarrow> unmodelled)
      else unmodelled)"

text \<open>The closures of the accessor tables that read their receiver.\<close>

definition call_accessor :: "val \<Rightarrow> string \<Rightarrow> val list \<Rightarrow> val M" where
  "call_accessor receiver nm args =
     (case (receiver, args) of
        (VList lst, [x]) \<Rightarrow>
          if nm = ''includes'' then lift (res_map VBool (py_in x (VList lst)))
          else if nm = ''concat'' then lift (py_add (VList lst) x)
          else if nm = ''fill'' then ret (VList (replicate (length lst) x))
          else unmodelled
      | (VList lst, []) \<Rightarrow>
          if nm = ''reverse'' then ret (VList (rev lst)) else unmodelled
      | (VStr s, [x]) \<Rightarrow>
          if nm = ''includes'' then lift (res_map VBool (py_in x (VStr s)))
          else if nm = ''repeat'' then lift (py_mul (VStr s) x)
          else unmodelled
      | _ \<Rightarrow> unmodelled)"

definition call_host ::
  "(val \<Rightarrow> val list \<Rightarrow> val M) \<Rightarrow> val \<Rightarrow> val list \<Rightarrow> val M" where
  "call_host cl callee args =
     (case callee of
        Builtin nm \<Rightarrow> call_builtin cl nm args
      | PyMethod (RiftInstance a) m \<Rightarrow> call_instance_method a m args
      | HostAccessor receiver nm \<Rightarrow> call_accessor receiver nm args
      | _ \<Rightarrow> unmodelled)"

text \<open>\<open>_call\<close>\<close>

definition rift_call_step ::
  "(node \<Rightarrow> val M) \<Rightarrow> (val \<Rightarrow> val list \<Rightarrow> val M) \<Rightarrow> val \<Rightarrow> val list \<Rightarrow> val M" where
  "rift_call_step ev cl callee args =
     (if py_callable callee then
        (\<lambda>s. case call_host cl callee args s of
           (Raise (RiftError TypeError msg), s') \<Rightarrow> (Raise (RiftError ArgumentError msg), s')
         | (other, s') \<Rightarrow> (other, s'))
      else case callee of
        RiftFunction nm params body closure is_method \<Rightarrow>
          call_function ev nm params body closure args
      | RiftLambda params body closure \<Rightarrow> call_lambda ev params body closure args
      | RiftBoundMethod inst m \<Rightarrow> call_bound_method ev inst m args
      | RiftClass n ms ps par sm sp c \<Rightarrow> instantiate_class ev callee args
      | VMap m \<Rightarrow> raise (RiftError TypeError
          (''Cannot call dict directly, use '' @ quoted ''namespace.function()''))
      | _ \<Rightarrow> (\<lambda>s. (Raise (RiftError TypeError
          (''Cannot call '' @ type_name (instances s) callee)), s)))"

definition eval_Call ::
  "(node \<Rightarrow> val M) \<Rightarrow> (val \<Rightarrow> val list \<Rightarrow> val M) \<Rightarrow> node \<Rightarrow> node list \<Rightarrow> val M" where
  "eval_Call ev cl callee arguments =
     bnd (ev callee) (\<lambda>c.
     bnd (eval_list ev arguments) (\<lambda>args.
     cl c args))"

text \<open>\<open>_eval_Pipeline\<close>: one stage, applied to the piped value.\<close>

definition pipeline_stage ::
  "(node \<Rightarrow> val M) \<Rightarrow> (val \<Rightarrow> val list \<Rightarrow> val M) \<Rightarrow> node \<Rightarrow> val \<Rightarrow> val M" where
  "pipeline_stage ev cl stage v =
     (case stage of
        Call callee arguments \<Rightarrow>
          (case callee of
             Identifier method_name \<Rightarrow>
               bnd (eval_list ev arguments) (\<lambda>args.
               bnd (\<lambda>s. (try_get_method (instances s) v method_name, s)) (\<lambda>m.
                 case m of
                   Some meth \<Rightarrow> cl meth args
                 | None \<Rightarrow> (\<lambda>s.
                     case bnd (ev callee) (\<lambda>func. cl func (args @ [v])) s of
                       (Raise (RiftError NameError msg), s') \<Rightarrow>
                         (Raise (RiftError NameError
                            (quoted method_name @ '' is not a method of ''
                              @ type_name (instances s') v @ '' or a defined function'')), s')
                     | (other, s') \<Rightarrow> (other, s'))))
           | _ \<Rightarrow>
               bnd (ev callee) (\<lambda>c.
               bnd (eval_list ev arguments) (\<lambda>args.
               cl c (args @ [v]))))
      | Lambda params body \<Rightarrow>
          bnd current (\<lambda>env. call_lambda ev params body env [v])
      | Identifier nm \<Rightarrow>
          bnd (\<lambda>s. (try_get_method (instances s) v nm, s)) (\<lambda>m.
            case m of
              Some meth \<Rightarrow> cl meth []
            | None \<Rightarrow> bnd (ev stage) (\<lambda>func. cl func [v]))
      | _ \<Rightarrow> bnd (ev stage) (\<lambda>func. cl func [v]))"

fun pipeline_stages ::
  "(node \<Rightarrow> val M) \<Rightarrow> (val \<Rightarrow> val list \<Rightarrow> val M) \<Rightarrow> node list \<Rightarrow> val \<Rightarrow> val M" where
  "pipeline_stages ev cl [] v = ret v"
| "pipeline_stages ev cl (stage # stages) v =
     bnd (pipeline_stage ev cl stage v) (pipeline_stages ev cl stages)"

definition eval_Pipeline ::
  "(node \<Rightarrow> val M) \<Rightarrow> (val \<Rightarrow> val list \<Rightarrow> val M) \<Rightarrow> node \<Rightarrow> node list \<Rightarrow> val M" where
  "eval_Pipeline ev cl seed stages = bnd (ev seed) (pipeline_stages ev cl stages)"

section \<open>The evaluator: dispatch and recursion\<close>

text \<open>\<open>evaluate\<close>: dispatch on the class of the node. A node class without an
  \<open>_eval_\<close> method is a Runtime error.\<close>

definition unknown_node :: "string \<Rightarrow> val M" where
  "unknown_node cls = raise (RiftError RuntimeError (''Unknown node type: '' @ cls))"

definition eval_node ::
  "nat \<Rightarrow> (node \<Rightarrow> val M) \<Rightarrow> (val \<Rightarrow> val list \<Rightarrow> val M) \<Rightarrow> (node \<Rightarrow> val \<Rightarrow> matched M)
    \<Rightarrow> node \<Rightarrow> val M" where
  "eval_node fuel ev cl mp nd =
     (case nd of
        Literal l \<Rightarrow> ret (lit_val l)
      | Identifier nm \<Rightarrow> eval_Identifier nm
      | BinaryOp op l r \<Rightarrow> eval_BinaryOp ev op l r
      | UnaryOp op e \<Rightarrow> eval_UnaryOp ev op e
      | LogicalOp op l r \<Rightarrow> eval_LogicalOp ev op l r
      | Assignment target rhs op \<Rightarrow> eval_Assignment ev target rhs op
      | Call callee arguments \<Rightarrow> eval_Call ev cl callee arguments
      | MemberAccess obj prop safe \<Rightarrow> eval_MemberAccess ev obj prop safe
      | ListLiteral elements \<Rightarrow> eval_ListLiteral ev elements
      | MapLiteral entries \<Rightarrow> eval_MapLiteral ev entries
      | Range st en inclusive \<Rightarrow> eval_Range ev st en inclusive
      | Pipeline seed stages async \<Rightarrow> eval_Pipeline ev cl seed stages
      | Lambda params body \<Rightarrow> eval_Lambda params body
      | Yield e \<Rightarrow> eval_Yield ev e
      | Me \<Rightarrow> eval_Me
      | Block statements \<Rightarrow> eval_Block ev statements
      | ExpressionStatement e \<Rightarrow> ev e
      | VariableDeclaration kind nm type_hint init \<Rightarrow>
          eval_VariableDeclaration ev kind nm type_hint init
      | FunctionDeclaration nm params body \<Rightarrow> eval_FunctionDeclaration nm params body
      | IfStatement c t e \<Rightarrow> eval_IfStatement ev c t e
      | WhileStatement c b \<Rightarrow> while_loop fuel ev c b VNone
      | CheckStatement scrutinee cases \<Rightarrow> eval_CheckStatement ev mp scrutinee cases
      | TryStatement tb cv cb fb \<Rightarrow> eval_TryStatement ev tb cv cb fb
      | FailStatement e \<Rightarrow> eval_FailStatement ev e
      | GiveStatement e \<Rightarrow> eval_GiveStatement ev e
      | StopStatement \<Rightarrow> raise BreakSignal
      | NextStatement \<Rightarrow> raise ContinueSignal
      | ClassDeclaration nm parent_name body \<Rightarrow> eval_ClassDeclaration ev nm parent_name body
      | MethodDeclaration nm ps b st \<Rightarrow> unknown_node ''MethodDeclaration''
      | PropertyDeclaration nm init st \<Rightarrow> unknown_node ''PropertyDeclaration''
      | Constructor ps b \<Rightarrow> unknown_node ''Constructor''
      | WildcardPattern \<Rightarrow> unknown_node ''WildcardPattern''
      | BindingPattern nm \<Rightarrow> unknown_node ''BindingPattern''
      | RangePattern st en \<Rightarrow> unknown_node ''RangePattern'')"

text \<open>
  The recursion of the host's call stack, bounded by the fuel: \<open>evaluate (Suc n)\<close>
  may call \<open>evaluate\<close>, \<open>_call\<close> and \<open>_match_pattern\<close> with fuel \<open>n\<close>.
\<close>

fun evaluate :: "nat \<Rightarrow> node \<Rightarrow> val M"
  and rift_call :: "nat \<Rightarrow> val \<Rightarrow> val list \<Rightarrow> val M"
  and match_pattern :: "nat \<Rightarrow> node \<Rightarrow> val \<Rightarrow> matched M" where
  "evaluate 0 nd = (\<lambda>s. (OutOfFuel, s))"
| "evaluate (Suc n) nd = eval_node n (evaluate n) (rift_call n) (match_pattern n) nd"
| "rift_call 0 callee args = (\<lambda>s. (OutOfFuel, s))"
| "rift_call (Suc n) callee args = rift_call_step (evaluate n) (rift_call n) callee args"
| "match_pattern 0 pattern v = (\<lambda>s. (OutOfFuel, s))"
| "match_pattern (Suc n) pattern v =
     match_pattern_step (evaluate n) (match_pattern n) pattern v"

declare evaluate.simps [simp del] rift_call.simps [simp del] match_pattern.simps [simp del]

text \<open>\<open>Interpreter.execute\<close>: the statements of a program, in the global scope.\<close>

definition execute :: "nat \<Rightarrow> node list \<Rightarrow> val M" where
  "execute n body = eval_statements (evaluate n) body VNone"

section \<open>Definitions for the statements: programs, states and predicates\<close>

text \<open>\<open>mut c = 0\<close>, \<open>conduit f() @ c = c + 1 #\<close>, \<open>f()\<close>\<close>

definition counter_body :: node where
  "counter_body = Block [ExpressionStatement
     (Assignment (Identifier ''c'') (BinaryOp ''+'' (Identifier ''c'') (Literal (LInt 1))) ''='')]"

definition counter_program :: "node list" where
  "counter_program =
     [VariableDeclaration ''mut'' ''c'' None (Some (Literal (LInt 0))),
      FunctionDeclaration ''f'' [] counter_body,
      ExpressionStatement (Call (Identifier ''f'') [])]"

text \<open>\<open>make Greeter @ conduit greet() @ give "hi" # #\<close>, \<open>let g = Greeter()\<close>, and then
  \<open>g.greet()\<close> or \<open>g -> greet()\<close>\<close>

definition greeter_declarations :: "node list" where
  "greeter_declarations =
     [ClassDeclaration ''Greeter'' None
        [MethodDeclaration ''greet'' [] (Block [GiveStatement (Some (Literal (LStr ''hi'')))])
           False],
      VariableDeclaration ''let'' ''g'' None (Some (Call (Identifier ''Greeter'') []))]"

definition greeter_member_call :: "node list" where
  "greeter_member_call = greeter_declarations @
     [ExpressionStatement (Call (MemberAccess (Identifier ''g'') ''greet'' False) [])]"

definition greeter_pipeline :: "node list" where
  "greeter_pipeline = greeter_declarations @
     [ExpressionStatement (Pipeline (Identifier ''g'') [Call (Identifier ''greet'') []] False)]"

text \<open>\<open>~1, 2! .includes(1)\<close> and \<open>~1, 2! -> includes(1)\<close>\<close>

definition includes_member_call :: "node list" where
  "includes_member_call =
     [ExpressionStatement
        (Call (MemberAccess (ListLiteral [Literal (LInt 1), Literal (LInt 2)]) ''includes'' False)
           [Literal (LInt 1)])]"

definition includes_pipeline :: "node list" where
  "includes_pipeline =
     [ExpressionStatement
        (Pipeline (ListLiteral [Literal (LInt 1), Literal (LInt 2)])
           [Call (Identifier ''includes'') [Literal (LInt 1)]] False)]"

text \<open>\<open>let x = 1\<close>, \<open>conduit f(a = x) @ give a #\<close>,
  \<open>conduit g() @ let x = 2 ; give f() #\<close>, \<open>g()\<close>; and the same with the lambda
  \<open>let h = (a = x) => a\<close> in place of \<open>f\<close>.\<close>

definition default_in_function :: "node list" where
  "default_in_function =
     [VariableDeclaration ''let'' ''x'' None (Some (Literal (LInt 1))),
      FunctionDeclaration ''f'' [Parameter ''a'' (Some (Identifier ''x'')) False]
        (Block [GiveStatement (Some (Identifier ''a''))]),
      FunctionDeclaration ''g'' []
        (Block [VariableDeclaration ''let'' ''x'' None (Some (Literal (LInt 2))),
                GiveStatement (Some (Call (Identifier ''f'') []))]),
      ExpressionStatement (Call (Identifier ''g'') [])]"

definition default_in_lambda :: "node list" where
  "default_in_lambda =
     [VariableDeclaration ''let'' ''x'' None (Some (Literal (LInt 1))),
      VariableDeclaration ''let'' ''h'' None
        (Some (Lambda [Parameter ''a'' (Some (Identifier ''x'')) False] (Identifier ''a''))),
      FunctionDeclaration ''g'' []
        (Block [VariableDeclaration ''let'' ''x'' None (Some (Literal (LInt 2))),
                GiveStatement (Some (Call (Identifier ''h'') []))]),
      ExpressionStatement (Call (Identifier ''g'') [])]"

text \<open>\<open>try @ stop # catch e @ 1 #\<close> and \<open>try @ give 1 # finally @ give 2 #\<close>\<close>

definition signal_try_catch :: node where
  "signal_try_catch =
     TryStatement (Block [StopStatement]) (Some ''e'')
       (Some (Block [ExpressionStatement (Literal (LInt 1))])) None"

definition give_in_finally :: node where
  "give_in_finally =
     TryStatement (Block [GiveStatement (Some (Literal (LInt 1)))]) None None
       (Some (Block [GiveStatement (Some (Literal (LInt 2)))]))"

text \<open>The state after \<open>let x = 1\<close> in the global scope.\<close>

definition state_let_x :: interp where
  "state_let_x =
     snd (execute 3 [VariableDeclaration ''let'' ''x'' None (Some (Literal (LInt 1)))]
            new_interpreter)"

text \<open>A map the evaluator builds has pairwise distinct keys (\<open>dict_set\<close> keeps them so);
  \<open>wf_val\<close> says so of every map inside a value.\<close>

fun keys_distinct :: "(val \<times> val) list \<Rightarrow> bool" where
  "keys_distinct [] = True"
| "keys_distinct (kv # m) =
     (list_all (\<lambda>kv'. \<not> (fst kv = fst kv' \<or> scalar_eq (fst kv) (fst kv'))) m \<and> keys_distinct m)"

fun wf_val :: "val \<Rightarrow> bool"
  and wf_items :: "val list \<Rightarrow> bool"
  and wf_entries :: "(val \<times> val) list \<Rightarrow> bool" where
  "wf_val v = (case v of
       VList xs \<Rightarrow> wf_items xs
     | VMap m \<Rightarrow> keys_distinct m \<and> wf_entries m
     | _ \<Rightarrow> True)"
| "wf_items [] = True"
| "wf_items (x # xs) = (wf_val x \<and> wf_items xs)"
| "wf_entries [] = True"
| "wf_entries (kv # m) = (wf_val (snd kv) \<and> wf_entries m)"

definition nan_program :: "node list" where
  "nan_program =
     [VariableDeclaration ''let'' ''x'' None
        (Some (BinaryOp ''-'' (Literal (LFloat PosInf)) (Literal (LFloat PosInf)))),
      ExpressionStatement (BinaryOp ''=='' (Identifier ''x'') (Identifier ''x''))]"

definition sample_value :: val where
  "sample_value = VList [VNone, VInt 1, VFloat NaN, VMap [(VStr ''k'', VList []), (VInt 2, VStr ''v'')]]"

text \<open>
  The words of the specification of \<open>check\<close>, on the evaluator's own pattern matcher: a
  case is selected when its pattern matches and its guard, if present, is truthy;
  \<open>selected\<close> returns the bindings and the state then. A list of cases is rejected
  when each of them, tried in order, fails to match or has a falsy guard; \<open>rejected\<close>
  returns the state after the last of them.
\<close>

definition selected ::
  "nat \<Rightarrow> val \<Rightarrow> checkcase \<Rightarrow> interp \<Rightarrow> ((string \<times> val) list \<times> interp) option" where
  "selected n v c s =
     (case match_pattern n (case_pattern c) v s of
        (Ok r, s') \<Rightarrow>
          if fst r then
            (case case_guard c of
               None \<Rightarrow> Some (snd r, s')
             | Some g \<Rightarrow>
                 (case in_check_scope (snd r) (evaluate n g) s' of
                    (Ok guard_result, s'') \<Rightarrow>
                      if is_truthy guard_result then Some (snd r, s'') else None
                  | _ \<Rightarrow> None))
          else None
      | _ \<Rightarrow> None)"

fun rejected :: "nat \<Rightarrow> val \<Rightarrow> checkcase list \<Rightarrow> interp \<Rightarrow> interp option" where
  "rejected n v [] s = Some s"
| "rejected n v (c # cs) s =
     (case match_pattern n (case_pattern c) v s of
        (Ok r, s') \<Rightarrow>
          if fst r then
            (case case_guard c of
               None \<Rightarrow> None
             | Some g \<Rightarrow>
                 (case in_check_scope (snd r) (evaluate n g) s' of
                    (Ok guard_result, s'') \<Rightarrow>
                      if is_truthy guard_result then None else rejected n v cs s''
                  | _ \<Rightarrow> None))
          else rejected n v cs s'
      | _ \<Rightarrow> None)"

text \<open>Scenario 4 of the specification: \<open>let n = 7\<close>, then
  \<open>check n @ x when x < 5 => "small" ; x when x < 10 => "mid" ; _ => "big" #\<close>.\<close>

definition state_n7 :: interp where
  "state_n7 = snd (env_define [0] ''n'' (VInt 7) False False None new_interpreter)"

definition case_small :: checkcase where
  "case_small = CheckCase (BindingPattern ''x'')
     (Some (BinaryOp ''<'' (Identifier ''x'') (Literal (LInt 5)))) (Literal (LStr ''small''))"

definition case_mid :: checkcase where
  "case_mid = CheckCase (BindingPattern ''x'')
     (Some (BinaryOp ''<'' (Identifier ''x'') (Literal (LInt 10)))) (Literal (LStr ''mid''))"

definition case_big :: checkcase where
  "case_big = CheckCase WildcardPattern None (Literal (LStr ''big''))"

definition state_after_small :: interp where
  "state_after_small = the (rejected 3 (VInt 7) [case_small] state_n7)"

definition state_at_mid :: interp where
  "state_at_mid = snd (the (selected 3 (VInt 7) case_mid state_after_small))"

text \<open>\<open>make Point @ build(x) @ me.x = x ; give 99 # #\<close>, and the call \<open>Point(3)\<close>\<close>

definition point_params :: "param list" where
  "point_params = [Parameter ''x'' None False]"

definition point_body :: node where
  "point_body = Block [ExpressionStatement
                  (Assignment (MemberAccess Me ''x'' False) (Identifier ''x'') ''=''),
                GiveStatement (Some (Literal (LInt 99)))]"

definition point_class :: val where
  "point_class = RiftClass ''Point'' [] [] None [] [] (Some (point_params, point_body))"

definition state_point :: interp where
  "state_point =
     snd (evaluate 2 (ClassDeclaration ''Point'' None [Constructor point_params point_body])
            new_interpreter)"

definition state_point_bound :: interp where
  "state_point_bound =
     snd (bind_constructor (evaluate 5) point_params [VInt 3] 0
            (snd (new_instance point_class state_point)))"

definition state_point_built :: interp where
  "state_point_built = snd (evaluate 5 point_body (state_point_bound\<lparr>current_env := [1, 0]\<rparr>))"

section \<open>Theorems\<close>

subsection \<open>Where the code departs from the specification\<close>

text \<open>
  Claim C1 (a defect of the code). \<open>_call_function\<close> evaluates the body and then
  evaluates the body's last expression statement again, so that expression runs twice
  in one call. With \<open>mut c = 0\<close> and \<open>conduit f() @ c = c + 1 #\<close>, the body alone
  evaluates to 1, but the call \<open>f()\<close> returns 2 and leaves \<open>c = 2\<close>.
\<close>

theorem auto_return_evaluates_twice:
  "fst (evaluate 6 counter_body (snd (execute 8 (take 2 counter_program) new_interpreter)))
     = Ok (VInt 1)
   \<and> fst (execute 8 counter_program new_interpreter) = Ok (VInt 2)
   \<and> fst (get [0] ''c'' (snd (execute 8 counter_program new_interpreter))) = Ok (VInt 2)"
  by code_simp

text \<open>
  Claim C2 (a defect of the code). \<open>_try_get_method\<close> looks the stage's name up with the
  host's \<open>hasattr\<close>, which knows neither the methods of an instance's class nor the
  accessor tables of text and sequences. For an instance \<open>g\<close> of a class with a method
  \<open>greet\<close>, \<open>g.greet()\<close> is \<open>"hi"\<close> but \<open>g -> greet()\<close> fails with a Name error; and
  \<open>~1, 2!.includes(1)\<close> is true but \<open>~1, 2! -> includes(1)\<close> calls the function
  \<open>includes(1, ~1, 2!)\<close>, which fails in the host.
\<close>

theorem pipeline_misses_members:
  "fst (execute 8 greeter_member_call new_interpreter) = Ok (VStr ''hi'')
   \<and> fst (execute 8 greeter_pipeline new_interpreter)
       = Raise (RiftError NameError
           (quoted ''greet'' @ '' is not a method of instance of Greeter or a defined function''))
   \<and> fst (execute 8 includes_member_call new_interpreter) = Ok (VBool True)
   \<and> fst (execute 8 includes_pipeline new_interpreter) = Raise (PyException PyTypeError)"
  by code_simp

text \<open>
  Claim C4 (a defect of the code). \<open>_call_function\<close> evaluates a missing parameter's
  default before it switches to the function's scope, hence in the scope of the caller;
  \<open>_call_lambda\<close> switches first. With \<open>x = 1\<close> in the global scope, where \<open>f(a = x)\<close>
  is declared, and \<open>x = 2\<close> in the caller, \<open>f()\<close> returns 2; the lambda with the same
  parameter returns 1.
\<close>

theorem function_default_uses_calling_scope:
  "fst (execute 12 default_in_function new_interpreter) = Ok (VInt 2)
   \<and> fst (execute 12 default_in_lambda new_interpreter) = Ok (VInt 1)"
  by code_simp

subsection \<open>Signals and try statements\<close>

text \<open>
  Claim C3, as amended. A Return, Break, Continue or Yield signal raised while the
  try-block is evaluated is never intercepted by the catch block, whether or not one is
  present: the catch block is not evaluated, the finally block (if present) is, and
  the signal then propagates out of the try statement unchanged, unless the finally
  block itself ends in a signal or a failure, which then propagates in its place.
\<close>

theorem try_does_not_catch_signals:
  assumes "evaluate n try_block s = (Raise sg, s1)" and "is_signal sg"
  shows "evaluate (Suc n) (TryStatement try_block catch_var catch_block finally_block) s =
           (case finally_block of
              None \<Rightarrow> (Raise sg, s1)
            | Some fb \<Rightarrow>
                (case evaluate n fb s1 of
                   (Ok v, s2) \<Rightarrow> (Raise sg, s2)
                 | (other, s2) \<Rightarrow> (other, s2)))"
  using assms
  by (simp add: evaluate.simps eval_node_def eval_TryStatement_def run_finally_def
      split: option.splits res.splits prod.splits)

text \<open>The witness: \<open>stop\<close> inside a try-block with a catch block leaves the statement
  as the Break signal.\<close>

theorem try_does_not_catch_signals_witness:
  "evaluate 3 (Block [StopStatement]) new_interpreter = (Raise BreakSignal, new_interpreter)
   \<and> is_signal BreakSignal
   \<and> evaluate 4 signal_try_catch new_interpreter = (Raise BreakSignal, new_interpreter)"
proof -
  have a: "evaluate 3 (Block [StopStatement]) new_interpreter = (Raise BreakSignal, new_interpreter)"
    by (simp add: evaluate.simps eval_node_def eval_Block_def bnd_def raise_def numeral_3_eq_3)
  have b: "is_signal BreakSignal" by simp
  from try_does_not_catch_signals [OF a b, of "Some ''e''"
      "Some (Block [ExpressionStatement (Literal (LInt 1))])" None] a b
  show ?thesis by (simp add: signal_try_catch_def eval_nat_numeral)
qed

text \<open>
  The claim as stated fails: the Return signal of \<open>give 1\<close> in the try-block does not
  leave \<open>try @ give 1 # finally @ give 2 #\<close> unchanged; the statement ends with the
  Return signal of the finally block, carrying 2.
\<close>

theorem finally_replaces_signal_counterexample:
  "fst (evaluate 3 (Block [GiveStatement (Some (Literal (LInt 1)))]) new_interpreter)
     = Raise (ReturnSignal (VInt 1))
   \<and> fst (evaluate 4 give_in_finally new_interpreter) = Raise (ReturnSignal (VInt 2))"
  by code_simp

subsection \<open>Immutable bindings\<close>

lemma env_set_immutable:
  "nearest fs env nm = Some a \<Longrightarrow> nm \<in> immutables (fs ! a) \<or> nm \<in> constants (fs ! a) \<Longrightarrow>
   is_assign_error (env_set fs env nm v)"
  by (induction env) (auto simp: is_assign_error_def split: if_splits)

lemma set_var_immutable:
  assumes "immutable_binding s env nm"
  shows "is_assign_error (fst (set_var env nm v s)) \<and> snd (set_var env nm v s) = s"
proof -
  from assms obtain a where a: "nearest (frames s) env nm = Some a"
    and imm: "nm \<in> immutables (frames s ! a) \<or> nm \<in> constants (frames s ! a)"
    by (auto simp: immutable_binding_def split: option.splits)
  have "is_assign_error (env_set (frames s) env nm v)"
    by (rule env_set_immutable [OF a imm])
  then show ?thesis
    by (auto simp: set_var_def is_assign_error_def split: res.splits exn.splits err_class.splits)
qed

lemma assignment_to_identifier:
  "evaluate n rhs s0 = (Ok v, s) \<Longrightarrow>
   evaluate (Suc n) (Assignment (Identifier nm) rhs ''='') s0
     = (case set_var (current_env s) nm v s of
          (Ok u, s') \<Rightarrow> (Ok v, s')
        | (Raise e, s') \<Rightarrow> (Raise e, s')
        | (OutOfFuel, s') \<Rightarrow> (OutOfFuel, s')
        | (Unmodelled, s') \<Rightarrow> (Unmodelled, s'))"
  by (simp add: evaluate.simps eval_node_def eval_Assignment_def bnd_def ret_def current_def
      split: prod.splits res.splits)

text \<open>
  Claim C5. A name whose nearest binding was declared immutable (\<open>let\<close>) or constant
  (\<open>const\<close>) cannot be written: \<open>Environment.set\<close> fails with an Assign error and
  leaves the evaluator's state as it was, so the binding keeps its value; and so does
  the assignment \<open>nm = rhs\<close>, once its right-hand side has been evaluated.
\<close>

theorem set_immutable_binding_fails:
  assumes "immutable_binding s env nm"
  shows "is_assign_error (fst (set_var env nm v s)) \<and> snd (set_var env nm v s) = s
         \<and> (evaluate n rhs s0 = (Ok v, s) \<and> env = current_env s \<longrightarrow>
              is_assign_error (fst (evaluate (Suc n) (Assignment (Identifier nm) rhs ''='') s0))
              \<and> snd (evaluate (Suc n) (Assignment (Identifier nm) rhs ''='') s0) = s)"
proof -
  have a: "is_assign_error (fst (set_var env nm v s))" and b: "snd (set_var env nm v s) = s"
    using set_var_immutable [OF assms] by simp_all
  {
    assume e: "evaluate n rhs s0 = (Ok v, s)" and c: "env = current_env s"
    obtain r s' where sv: "set_var env nm v s = (r, s')" by (cases "set_var env nm v s")
    with a b have "is_assign_error r" and "s' = s" by simp_all
    with sv c assignment_to_identifier [OF e, of nm]
    have "is_assign_error (fst (evaluate (Suc n) (Assignment (Identifier nm) rhs ''='') s0))
          \<and> snd (evaluate (Suc n) (Assignment (Identifier nm) rhs ''='') s0) = s"
      by (cases r) (auto simp: is_assign_error_def)
  }
  with a b show ?thesis by blast
qed

text \<open>The witness: after \<open>let x = 1\<close> in the global scope, \<open>x = 2\<close> is refused and
  \<open>x\<close> is still 1.\<close>

lemma state_let_x_immutable: "immutable_binding state_let_x [0] ''x''"
  by code_simp

lemma state_let_x_value: "fst (get [0] ''x'' state_let_x) = Ok (VInt 1)"
  by code_simp

lemma state_let_x_scope: "current_env state_let_x = [0]"
  by code_simp

lemma state_let_x_rhs:
  "evaluate 2 (Literal (LInt 2)) state_let_x = (Ok (VInt 2), state_let_x)"
  by (simp add: evaluate.simps eval_node_def ret_def numeral_2_eq_2)

theorem set_immutable_binding_fails_witness:
  "immutable_binding state_let_x [0] ''x''
   \<and> is_assign_error (fst (set_var [0] ''x'' (VInt 2) state_let_x))
   \<and> is_assign_error
        (fst (evaluate 3 (Assignment (Identifier ''x'') (Literal (LInt 2)) ''='') state_let_x))
   \<and> fst (get [0] ''x''
        (snd (evaluate 3 (Assignment (Identifier ''x'') (Literal (LInt 2)) ''='') state_let_x)))
       = Ok (VInt 1)"
  using set_immutable_binding_fails [OF state_let_x_immutable, where v = "VInt 2" and n = 2
      and rhs = "Literal (LInt 2)" and ?s0.0 = state_let_x]
    state_let_x_immutable state_let_x_value state_let_x_scope state_let_x_rhs
  by (simp add: eval_nat_numeral)

subsection \<open>Equality of a value with itself\<close>

lemma py_eq_items_refl: "py_eq_items xs xs"
  by (induction xs) auto

lemma dict_get_distinct:
  "keys_distinct m \<Longrightarrow> kv \<in> set m \<Longrightarrow> dict_get m (fst kv) = Some (snd kv)"
proof (induction m)
  case Nil
  then show ?case by simp
next
  case (Cons e m)
  show ?case
  proof (cases "kv = e")
    case True
    then show ?thesis by (cases e) simp
  next
    case False
    with Cons.prems have in_m: "kv \<in> set m" by simp
    from Cons.prems have "\<not> (fst e = fst kv \<or> scalar_eq (fst e) (fst kv))"
      using in_m by (auto simp: list_all_iff)
    moreover from Cons have "dict_get m (fst kv) = Some (snd kv)"
      using in_m by simp
    ultimately show ?thesis by (cases e) auto
  qed
qed

lemma py_eq_entries_sub:
  "\<forall>kv \<in> set m. dict_get m' (fst kv) = Some (snd kv) \<Longrightarrow> py_eq_entries m m'"
  by (induction m) auto

lemma py_eq_entries_refl: "keys_distinct m \<Longrightarrow> py_eq_entries m m"
  by (rule py_eq_entries_sub) (simp add: dict_get_distinct)

lemma fl_eq_refl: "f \<noteq> NaN \<Longrightarrow> fl_eq f f"
  by (cases f) auto

lemma scalar_eq_refl: "x \<noteq> VFloat NaN \<Longrightarrow> scalar_eq x x"
  by (cases x) (auto simp: scalar_eq_def fl_eq_refl)

lemma py_eq_refl: "wf_val x \<Longrightarrow> x \<noteq> VFloat NaN \<Longrightarrow> py_eq x x"
  by (cases x) (auto simp: py_eq.simps(1) py_eq_items_refl py_eq_entries_refl scalar_eq_refl)

text \<open>Maps built by the evaluator keep their keys distinct.\<close>

lemma dict_set_keys:
  "list_all (\<lambda>kv. Q (fst kv)) m \<Longrightarrow> Q k \<Longrightarrow> list_all (\<lambda>kv. Q (fst kv)) (dict_set m k v)"
  by (induction m) auto

lemma dict_set_distinct: "keys_distinct m \<Longrightarrow> keys_distinct (dict_set m k v)"
proof (induction m)
  case Nil
  then show ?case by simp
next
  case (Cons e m)
  obtain k' v' where e: "e = (k', v')" by (cases e)
  show ?case
  proof (cases "k' = k \<or> scalar_eq k' k")
    case True
    with Cons.prems e show ?thesis by simp
  next
    case False
    from Cons.prems e have "list_all (\<lambda>kv. \<not> (k' = fst kv \<or> scalar_eq k' (fst kv))) m"
      by simp
    from dict_set_keys [of "\<lambda>x. \<not> (k' = x \<or> scalar_eq k' x)" m k v, OF this False]
    have "list_all (\<lambda>kv. \<not> (k' = fst kv \<or> scalar_eq k' (fst kv))) (dict_set m k v)" .
    with Cons e False show ?thesis by simp
  qed
qed

text \<open>
  Claim C6, as amended. For every runtime value \<open>x\<close> other than a floating-point NaN
  (its maps having distinct keys, as every map the evaluator builds), the equality
  operation \<open>x == x\<close> evaluates to true; sequences and maps that contain a NaN are
  included, because the host compares an element with itself by identity first.
\<close>

theorem equality_reflexive_except_nan:
  assumes "wf_val x" and "x \<noteq> VFloat NaN"
  shows "binary_op ''=='' x x = Ok (VBool True)"
  using py_eq_refl [OF assms] by (simp add: binary_op_def)

text \<open>The witness: a sequence holding none, a number, a NaN and a map.\<close>

theorem equality_reflexive_witness:
  "wf_val sample_value \<and> sample_value \<noteq> VFloat NaN
   \<and> binary_op ''=='' sample_value sample_value = Ok (VBool True)"
proof -
  have a: "wf_val sample_value" by code_simp
  have b: "sample_value \<noteq> VFloat NaN" by (simp add: sample_value_def)
  from equality_reflexive_except_nan [OF a b] a b show ?thesis by simp
qed

text \<open>
  The claim as stated fails: \<open>let x = 1e999 - 1e999\<close> binds \<open>x\<close> to a NaN (the
  difference of two infinities), and \<open>x == x\<close> is then false.
\<close>

theorem equality_nan_counterexample:
  "fst (execute 3 nan_program new_interpreter) = Ok (VBool False)"
  by code_simp

subsection \<open>Pattern matching\<close>

lemma check_cases_rejected:
  "rejected n v pre s0 = Some s1 \<Longrightarrow>
   check_cases (evaluate n) (match_pattern n) v (pre @ rest) s0
     = check_cases (evaluate n) (match_pattern n) v rest s1"
proof (induction pre arbitrary: s0)
  case Nil
  then show ?case by simp
next
  case (Cons c pre)
  obtain r s' where m: "match_pattern n (case_pattern c) v s0 = (r, s')"
    by (cases "match_pattern n (case_pattern c) v s0")
  from Cons.prems m obtain mr where r: "r = Ok mr" by (cases r) auto
  show ?case
  proof (cases "fst mr")
    case False
    with Cons.prems m r have "rejected n v pre s' = Some s1" by simp
    from Cons.IH [OF this] m r False show ?thesis by (simp add: bnd_def)
  next
    case True
    with Cons.prems m r obtain g where g: "case_guard c = Some g"
      by (cases "case_guard c") auto
    obtain gr s'' where e: "in_check_scope (snd mr) (evaluate n g) s' = (gr, s'')"
      by (cases "in_check_scope (snd mr) (evaluate n g) s'")
    from Cons.prems m r True g e obtain gv where gr: "gr = Ok gv" by (cases gr) auto
    from Cons.prems m r True g e gr have falsy: "\<not> is_truthy gv"
      and rest: "rejected n v pre s'' = Some s1" by (auto split: if_splits)
    from Cons.IH [OF rest] m r True g e gr falsy show ?thesis
      by (simp add: bnd_def ret_def)
  qed
qed

lemma check_cases_selected:
  "selected n v c s1 = Some (b, s2) \<Longrightarrow>
   check_cases (evaluate n) (match_pattern n) v (c # post) s1
     = in_check_scope b (evaluate n (case_body c)) s2"
  by (auto simp: selected_def bnd_def ret_def
      split: prod.splits res.splits if_splits option.splits)

text \<open>
  Claim C7. A check statement evaluates its scrutinee once (to \<open>v\<close>, leaving the state
  \<open>s0\<close>) and tries its cases in order. When the cases \<open>pre\<close> are rejected and the next
  case \<open>c\<close> is selected, the result of the statement is the body of \<open>c\<close>, evaluated in
  a scope that holds the bindings of its pattern; the cases \<open>post\<close> after it play no
  part. When every case is rejected, the result is none.
\<close>

theorem check_first_match:
  assumes "evaluate n scrutinee s = (Ok v, s0)" and "rejected n v pre s0 = Some s1"
  shows "(selected n v c s1 = Some (b, s2) \<longrightarrow>
            evaluate (Suc n) (CheckStatement scrutinee (pre @ c # post)) s
              = in_check_scope b (evaluate n (case_body c)) s2)
         \<and> evaluate (Suc n) (CheckStatement scrutinee pre) s = (Ok VNone, s1)"
proof -
  have a: "evaluate (Suc n) (CheckStatement scrutinee cs) s
             = check_cases (evaluate n) (match_pattern n) v cs s0" for cs
    using assms(1) by (simp add: evaluate.simps eval_node_def eval_CheckStatement_def bnd_def)
  have none: "check_cases (evaluate n) (match_pattern n) v pre s0 = (Ok VNone, s1)"
    using check_cases_rejected [OF assms(2), of "[]"] by (simp add: ret_def)
  show ?thesis
    using a check_cases_rejected [OF assms(2), of "c # post"] check_cases_selected none
    by simp
qed

text \<open>The witness: scenario 4 of the specification selects the second case.\<close>

lemma scenario_scrutinee: "evaluate 3 (Identifier ''n'') state_n7 = (Ok (VInt 7), state_n7)"
  by code_simp

lemma scenario_rejected: "rejected 3 (VInt 7) [case_small] state_n7 = Some state_after_small"
  unfolding state_after_small_def by code_simp

lemma scenario_selected:
  "selected 3 (VInt 7) case_mid state_after_small = Some ([(''x'', VInt 7)], state_at_mid)"
  unfolding state_at_mid_def by code_simp

lemma scenario_body:
  "fst (in_check_scope [(''x'', VInt 7)] (evaluate 3 (case_body case_mid)) state_at_mid)
     = Ok (VStr ''mid'')"
  by code_simp

theorem check_first_match_witness:
  "evaluate 3 (Identifier ''n'') state_n7 = (Ok (VInt 7), state_n7)
   \<and> rejected 3 (VInt 7) [case_small] state_n7 = Some state_after_small
   \<and> selected 3 (VInt 7) case_mid state_after_small = Some ([(''x'', VInt 7)], state_at_mid)
   \<and> fst (evaluate 4 (CheckStatement (Identifier ''n'') [case_small, case_mid, case_big])
            state_n7) = Ok (VStr ''mid'')"
  using check_first_match [OF scenario_scrutinee scenario_rejected,
      of case_mid "[(''x'', VInt 7)]" state_at_mid "[case_big]"]
    scenario_scrutinee scenario_rejected scenario_selected scenario_body
  by (simp add: eval_nat_numeral)

subsection \<open>Ranges\<close>

text \<open>
  Claim C8. For integers \<open>a\<close> and \<open>b\<close>, the range expression \<open>a..b\<close> (and
  \<open>a to b\<close>: the parser builds the same inclusive \<open>Range\<close> node for both) evaluates to
  the integer sequence from \<open>a\<close> through \<open>b\<close> inclusive, which is empty when \<open>a > b\<close>.
\<close>

theorem range_inclusive:
  assumes "evaluate n st s = (Ok (VInt a), s1)" and "evaluate n en s1 = (Ok (VInt b), s2)"
  shows "evaluate (Suc n) (Range st en True) s = (Ok (VRange a (b + 1)), s2)
         \<and> range_elements (VRange a (b + 1)) = [a..b]
         \<and> (b < a \<longrightarrow> range_elements (VRange a (b + 1)) = [])"
  using assms by (simp add: evaluate.simps eval_node_def eval_Range_def bnd_def ret_def range_elements_def)

text \<open>The witness: \<open>2..5\<close> is the sequence 2, 3, 4, 5.\<close>

theorem range_inclusive_witness:
  "evaluate 1 (Literal (LInt 2)) new_interpreter = (Ok (VInt 2), new_interpreter)
   \<and> evaluate 1 (Literal (LInt 5)) new_interpreter = (Ok (VInt 5), new_interpreter)
   \<and> evaluate 2 (Range (Literal (LInt 2)) (Literal (LInt 5)) True) new_interpreter
       = (Ok (VRange 2 6), new_interpreter)
   \<and> range_elements (VRange 2 6) = [2, 3, 4, 5]"
proof -
  have a: "evaluate 1 (Literal (LInt 2)) new_interpreter = (Ok (VInt 2), new_interpreter)"
    by (simp add: evaluate.simps eval_node_def ret_def)
  have b: "evaluate 1 (Literal (LInt 5)) new_interpreter = (Ok (VInt 5), new_interpreter)"
    by (simp add: evaluate.simps eval_node_def ret_def)
  have c: "[2..5] = [2, 3, 4, 5 :: int]" by code_simp
  from range_inclusive [OF a b] a b c show ?thesis by (simp add: numeral_2_eq_2)
qed

subsection \<open>Division\<close>














subsection \<open>Calling a class\<close>

lemma rift_call_class:
  "is_class cls \<Longrightarrow> rift_call (Suc n) cls args = instantiate_class (evaluate n) cls args"
  by (cases cls) (simp_all add: rift_call.simps rift_call_step_def)

text \<open>
  Claim C10. Calling a class value returns the newly created instance (the object at
  the first free address of the instance store). When the class has a constructor and
  its body, run in the constructor's scope, completes with a value or with a Return
  signal, the signal is absorbed: neither the value given nor the value of the body's
  last expression is the result of the call.
\<close>

theorem constructor_returns_instance:
  assumes "is_class cls"
  shows "(cls_constructor cls = None \<longrightarrow>
            rift_call (Suc n) cls args s
              = (Ok (RiftInstance (length (instances s))), snd (new_instance cls s)))
         \<and> (cls_constructor cls = Some (params, body)
              \<and> bind_constructor (evaluate n) params args (length (instances s))
                   (snd (new_instance cls s)) = (Ok env, s1)
              \<and> evaluate n body (s1\<lparr>current_env := env\<rparr>) = (r, s2)
              \<and> (r = Ok v \<or> r = Raise (ReturnSignal v)) \<longrightarrow>
            rift_call (Suc n) cls args s
              = (Ok (RiftInstance (length (instances s))),
                 s2\<lparr>current_env := current_env s1\<rparr>))"
  using assms
  by (auto simp: rift_call_class instantiate_class_def bnd_def new_instance_def ret_def
      with_env_def absorb_return_def)

text \<open>The witness: \<open>Point(3)\<close>, whose constructor ends in \<open>give 99\<close>, is the new
  instance with \<open>x = 3\<close>.\<close>

lemma point_declared:
  "fst (evaluate 2 (ClassDeclaration ''Point'' None [Constructor point_params point_body])
          new_interpreter) = Ok point_class"
  by code_simp

lemma point_is_class: "is_class point_class"
  by (simp add: point_class_def)

lemma point_constructor: "cls_constructor point_class = Some (point_params, point_body)"
  by (simp add: point_class_def)

lemma point_fresh: "length (instances state_point) = 0"
  by code_simp

lemma point_bound:
  "bind_constructor (evaluate 5) point_params [VInt 3] 0
     (snd (new_instance point_class state_point)) = (Ok [1, 0], state_point_bound)"
  unfolding state_point_bound_def by code_simp

lemma point_body_gives:
  "evaluate 5 point_body (state_point_bound\<lparr>current_env := [1, 0]\<rparr>)
     = (Raise (ReturnSignal (VInt 99)), state_point_built)"
  unfolding state_point_built_def by code_simp

lemma point_property: "properties (instances state_point_built ! 0) = [(''x'', VInt 3)]"
  by code_simp

theorem constructor_returns_instance_witness:
  "is_class point_class
   \<and> cls_constructor point_class = Some (point_params, point_body)
   \<and> evaluate 5 point_body (state_point_bound\<lparr>current_env := [1, 0]\<rparr>)
       = (Raise (ReturnSignal (VInt 99)), state_point_built)
   \<and> rift_call 6 point_class [VInt 3] state_point
       = (Ok (RiftInstance 0), state_point_built\<lparr>current_env := current_env state_point_bound\<rparr>)
   \<and> properties (instances state_point_built ! 0) = [(''x'', VInt 3)]"
  using constructor_returns_instance [OF point_is_class, where params = point_params
      and body = point_body and n = 5 and args = "[VInt 3]" and s = state_point
      and env = "[1, 0]" and ?s1.0 = state_point_bound and r = "Raise (ReturnSignal (VInt 99))"
      and ?s2.0 = state_point_built and v = "VInt 99"]
    point_is_class point_constructor point_fresh point_bound point_body_gives point_property
  by (simp add: eval_nat_numeral)

end
